theory Spec2Isabelle
  imports Main "HOL-Library.Word"
begin

unbundle bit_operations_syntax

section \<open>Python values shared by the three modules\<close>

text \<open>
  The exceptions of Python that the modelled functions can raise. A function that can
  raise returns \<open>py_error + 'a\<close>, with \<open>Inl\<close> for the exception. A coroutine that is
  run for its effects gives the list of its effects and its \<open>outcome\<close>: it returned, or
  it raised.
\<close>

datatype py_error =
  ValueError | IndexError | KeyError | AttributeError | TypeError | RecursionError

datatype outcome = Returned | Raised py_error

section \<open>\<open>utils/helpers.py\<close>: permission bitfields\<close>

text \<open>
  \<open>hikari.Permissions\<close> is a flag enumeration over an integer bitfield. The model
  takes the bitfield as a 64-bit word: the complement \<open>~permissions\<close> of the flag type is
  taken inside the universe of permission bits, and so is \<open>NOT\<close> on a word.
  \<open>ADMINISTRATOR\<close> is \<open>1 << 3\<close> and \<open>NONE\<close> is the empty bitfield. The flag type
  keeps one object per value, so \<open>missing_perms is not Permissions.NONE\<close> is the test
  that the value is not 0.
\<close>

type_synonym permissions = "64 word"




section \<open>\<open>extensions/settings.py\<close>: \<open>get_key\<close>\<close>

text \<open>
  A Python dictionary keeps its keys in insertion order and holds each key once: it is an
  association list whose keys are distinct. \<open>list.index\<close> raises ValueError when the
  value is absent; indexing a list out of range raises IndexError.
\<close>

type_synonym ('k, 'v) dict = "('k \<times> 'v) list"

definition dict_keys :: "('k, 'v) dict \<Rightarrow> 'k list" where
  "dict_keys d = map fst d"

definition dict_values :: "('k, 'v) dict \<Rightarrow> 'v list" where
  "dict_values d = map snd d"

definition getitem :: "('k, 'v) dict \<Rightarrow> 'k \<Rightarrow> py_error + 'v" where
  "getitem d k = (case map_of d k of None \<Rightarrow> Inl KeyError | Some v \<Rightarrow> Inr v)"

fun index :: "'a list \<Rightarrow> 'a \<Rightarrow> py_error + nat" where
  "index [] v = Inl ValueError"
| "index (x # xs) v =
     (if x = v then Inr 0
      else case index xs v of Inl e \<Rightarrow> Inl e | Inr i \<Rightarrow> Inr (Suc i))"

definition item :: "'a list \<Rightarrow> nat \<Rightarrow> py_error + 'a" where
  "item xs i = (if i < length xs then Inr (xs ! i) else Inl IndexError)"

definition get_key :: "('k, 'v) dict \<Rightarrow> 'v \<Rightarrow> py_error + 'k" where
  "get_key dictionary v =
     (case index (dict_values dictionary) v of
        Inl e \<Rightarrow> Inl e
      | Inr i \<Rightarrow> item (dict_keys dictionary) i)"

section \<open>\<open>extensions/error_handler.py\<close>\<close>

text \<open>
  The handler receives a framework error. \<open>MissingRequiredPermission\<close> and
  \<open>BotMissingRequiredPermission\<close> are subclasses of \<open>CheckFailure\<close>; the constructor
  \<open>CheckFailure\<close> stands for every other check failure, \<open>LightbulbError\<close> for every
  other framework error (with its class name). A \<open>CommandInvocationError\<close> wraps the
  exception the command raised, its \<open>original\<close>. Every error carries the text that
  \<open>str(error)\<close> gives. \<open>CommandIsOnCooldown\<close> carries \<open>round(error.retry_after)\<close>, the
  whole number of seconds the handler prints.
\<close>

datatype original =
    TimeoutError string
  | InternalServerError string
  | ForbiddenError string
  | RoleHierarchyError string
  | OtherException string string

datatype lightbulb_error =
    MissingRequiredPermission permissions string
  | BotMissingRequiredPermission permissions string
  | CheckFailure string
  | CommandIsOnCooldown int string
  | CommandInvocationError original string
  | LightbulbError string string

fun original_class_name :: "original \<Rightarrow> string" where
  "original_class_name (TimeoutError _) = ''TimeoutError''"
| "original_class_name (InternalServerError _) = ''InternalServerError''"
| "original_class_name (ForbiddenError _) = ''ForbiddenError''"
| "original_class_name (RoleHierarchyError _) = ''RoleHierarchyError''"
| "original_class_name (OtherException c _) = c"

fun original_str :: "original \<Rightarrow> string" where
  "original_str (TimeoutError m) = m"
| "original_str (InternalServerError m) = m"
| "original_str (ForbiddenError m) = m"
| "original_str (RoleHierarchyError m) = m"
| "original_str (OtherException _ m) = m"

fun error_class_name :: "lightbulb_error \<Rightarrow> string" where
  "error_class_name (MissingRequiredPermission _ _) = ''MissingRequiredPermission''"
| "error_class_name (BotMissingRequiredPermission _ _) = ''BotMissingRequiredPermission''"
| "error_class_name (CheckFailure _) = ''CheckFailure''"
| "error_class_name (CommandIsOnCooldown _ _) = ''CommandIsOnCooldown''"
| "error_class_name (CommandInvocationError _ _) = ''CommandInvocationError''"
| "error_class_name (LightbulbError c _) = c"

fun error_str :: "lightbulb_error \<Rightarrow> string" where
  "error_str (MissingRequiredPermission _ m) = m"
| "error_str (BotMissingRequiredPermission _ m) = m"
| "error_str (CheckFailure m) = m"
| "error_str (CommandIsOnCooldown _ m) = m"
| "error_str (CommandInvocationError _ m) = m"
| "error_str (LightbulbError _ m) = m"

text \<open>
  A value of the bot's runtime configuration is an integer or a string; \<open>config.get\<close>
  gives \<open>None\<close> for a key that is not set. \<open>truthy\<close> is Python's truth value of the
  result: \<open>None\<close>, \<open>0\<close> and the empty string are false.
\<close>

datatype config_value = ConfigInt int | ConfigStr string

fun truthy :: "config_value option \<Rightarrow> bool" where
  "truthy None = False"
| "truthy (Some (ConfigInt n)) = (n \<noteq> 0)"
| "truthy (Some (ConfigStr s)) = (s \<noteq> [])"

record embed =
  title :: string
  description :: string
  color :: nat
  embed_fields :: "(string \<times> string \<times> bool) list"
  footer :: "string option"

text \<open>
  The command context, with what the handler reads of it: the guild (its name and id), the
  command's name, the author, the application's configuration and its error colour.
\<close>

record sned_context =
  guild_name :: string
  guild_id :: nat
  command_name :: string
  author :: string
  author_id :: nat
  config :: "(string, config_value) dict"
  error_color :: nat

text \<open>
  What the handler calls outside this repository is a parameter of the model:
  \<open>get_perm_str\<close> (module \<open>etc.perms_str\<close>) renders a permission bitfield,
  \<open>str_timedelta\<close> is \<open>str(datetime.timedelta(seconds=n))\<close>, \<open>format_exception\<close> is
  \<open>traceback.format_exception\<close>, \<open>build_pages\<close> is the framework's string paginator
  (2000 characters to a page, with the code-block prefix and suffix) from the lines added
  to the pages built, and \<open>create_message\<close> is the REST call, which sends a page to a
  channel and either succeeds (\<open>None\<close>) or raises an exception (\<open>Some\<close> of its text).
\<close>

record env =
  get_perm_str :: "permissions \<Rightarrow> string"
  str_timedelta :: "int \<Rightarrow> string"
  format_exception :: "lightbulb_error \<Rightarrow> string list"
  build_pages :: "string list \<Rightarrow> string list"
  create_message :: "config_value \<Rightarrow> string \<Rightarrow> string option"

datatype event =
    Respond embed bool
  | LoggingError string
  | CreateMessage config_value string


definition dict_get :: "('k, 'v) dict \<Rightarrow> 'k \<Rightarrow> 'v option" where
  "dict_get d k = map_of d k"

fun str_nat :: "nat \<Rightarrow> string" where
  "str_nat n =
     (if n < 10 then [char_of (48 + n)]
      else str_nat (n div 10) @ [char_of (48 + n mod 10)])"

fun str_split :: "char \<Rightarrow> string \<Rightarrow> string list" where
  "str_split sep [] = [[]]"
| "str_split sep (c # cs) =
     (if c = sep then [] # str_split sep cs
      else case str_split sep cs of
             [] \<Rightarrow> [[c]]
           | l # ls \<Rightarrow> (c # l) # ls)"

fun str_join :: "string \<Rightarrow> string list \<Rightarrow> string" where
  "str_join sep [] = []"
| "str_join sep [l] = l"
| "str_join sep (l # ls) = l @ sep @ str_join sep ls"

definition newline :: char where
  "newline = CHR 0x0A"

definition cross_mark :: string where
  "cross_mark = [CHR 0xE2, CHR 0x9D, CHR 0x8C]"

definition clock_nine :: string where
  "clock_nine = [CHR 0xF0, CHR 0x9F, CHR 0x95, CHR 0x98]"

text \<open>
  The loop over the pages: each page is sent, and an exception of the send is caught and
  logged, after which the loop goes on with the next page.
\<close>

fun send_pages :: "env \<Rightarrow> config_value \<Rightarrow> string list \<Rightarrow> event list" where
  "send_pages e channel_id [] = []"
| "send_pages e channel_id (page # pages) =
     CreateMessage channel_id page #
     (case create_message e channel_id page of
        None \<Rightarrow> []
      | Some err \<Rightarrow> [LoggingError (''Failed sending traceback to logging channel: '' @ err)]) @
     send_pages e channel_id pages"

definition header_line :: "sned_context option \<Rightarrow> string option \<Rightarrow> string" where
  "header_line ctx event =
     (case ctx of
        Some c \<Rightarrow>
          ''Error in '' @ [CHR 0x27] @ guild_name c @ [CHR 0x27] @ '' ('' @ str_nat (guild_id c) @
          '') during command '' @ [CHR 0x27] @ command_name c @ [CHR 0x27] @
          '' executed by user '' @ [CHR 0x27] @ author c @ [CHR 0x27] @ '' ('' @
          str_nat (author_id c) @ '')'' @ [newline]
      | None \<Rightarrow>
          (case event of
             Some event_class \<Rightarrow>
               ''Ignoring exception in listener for '' @ event_class @ '':'' @ [newline]
           | None \<Rightarrow> ''Uncaught exception:''))"

definition added_lines :: "string \<Rightarrow> sned_context option \<Rightarrow> string option \<Rightarrow> string list" where
  "added_lines error_text ctx event = header_line ctx event # str_split newline error_text"

text \<open>
  \<open>log_error_to_homeguild\<close>. The lines are added to the paginator first; reading
  \<open>ctx.app\<close> when \<open>ctx\<close> is \<open>None\<close> raises AttributeError. The event is given by the
  name of its class, all that the function reads of it.
\<close>

definition log_error_to_homeguild ::
  "env \<Rightarrow> string \<Rightarrow> sned_context option \<Rightarrow> string option \<Rightarrow> event list \<times> outcome" where
  "log_error_to_homeguild e error_text ctx event =
     (case ctx of
        None \<Rightarrow> ([], Raised AttributeError)
      | Some c \<Rightarrow>
          (let channel_id = dict_get (config c) ''error_logging_channel''
           in if \<not> truthy channel_id then ([], Returned)
              else (send_pages e (the channel_id)
                      (build_pages e (added_lines error_text ctx event)), Returned)))"

text \<open>
  The branches of \<open>application_error_handler\<close> that end in \<open>return await ctx.respond\<close>:
  \<open>early_response\<close> is the embed such a branch responds with, and \<open>None\<close> where the
  function goes on to the code after the chain of tests. The branch for a
  \<open>ForbiddenError\<close> builds its embed and has no \<open>return\<close>, so it goes on as well.
\<close>

definition missing_permissions_embed :: "env \<Rightarrow> sned_context \<Rightarrow> permissions \<Rightarrow> embed" where
  "missing_permissions_embed e ctx missing_perms =
     \<lparr>title = cross_mark @ '' Missing Permissions'',
      description = ''You require `'' @ get_perm_str e missing_perms @
        ''` permissions to execute this command.'',
      color = error_color ctx, embed_fields = [], footer = None\<rparr>"

definition bot_missing_permissions_embed :: "env \<Rightarrow> sned_context \<Rightarrow> permissions \<Rightarrow> embed" where
  "bot_missing_permissions_embed e ctx missing_perms =
     \<lparr>title = cross_mark @ '' Bot Missing Permissions'',
      description = ''The bot requires `'' @ get_perm_str e missing_perms @
        ''` permissions to execute this command.'',
      color = error_color ctx, embed_fields = [], footer = None\<rparr>"

definition cooldown_embed :: "env \<Rightarrow> sned_context \<Rightarrow> int \<Rightarrow> embed" where
  "cooldown_embed e ctx retry_after =
     \<lparr>title = clock_nine @ '' Cooldown Pending'',
      description = ''Please retry in: `'' @ str_timedelta e retry_after @ ''`'',
      color = error_color ctx, embed_fields = [], footer = None\<rparr>"

definition timed_out_embed :: "sned_context \<Rightarrow> embed" where
  "timed_out_embed ctx =
     \<lparr>title = cross_mark @ '' Action timed out'',
      description = ''This command timed out.'',
      color = error_color ctx, embed_fields = [], footer = None\<rparr>"

definition server_error_embed :: "sned_context \<Rightarrow> embed" where
  "server_error_embed ctx =
     \<lparr>title = cross_mark @ '' Discord Server Error'',
      description = ''This action has failed due to an issue with Discord'' @ [CHR 0x27] @
        ''s servers. Please try again in a few moments.'',
      color = error_color ctx, embed_fields = [], footer = None\<rparr>"

definition forbidden_embed :: "sned_context \<Rightarrow> lightbulb_error \<Rightarrow> embed" where
  "forbidden_embed ctx error =
     \<lparr>title = cross_mark @ '' Forbidden'',
      description = ''This action has failed due to a lack of permissions.'' @ [newline] @
        ''**Error:** '' @ error_str error,
      color = error_color ctx, embed_fields = [], footer = None\<rparr>"

definition role_hierarchy_embed :: "sned_context \<Rightarrow> embed" where
  "role_hierarchy_embed ctx =
     \<lparr>title = cross_mark @ '' Role Hiearchy Error'',
      description = ''This action failed due to trying to modify a user with a role '' @
        ''higher than the bot'' @ [CHR 0x27] @ ''s highest role.'',
      color = error_color ctx, embed_fields = [], footer = None\<rparr>"

fun early_response :: "env \<Rightarrow> sned_context \<Rightarrow> lightbulb_error \<Rightarrow> embed option" where
  "early_response e ctx (MissingRequiredPermission missing_perms _) =
     Some (missing_permissions_embed e ctx missing_perms)"
| "early_response e ctx (BotMissingRequiredPermission missing_perms _) =
     Some (bot_missing_permissions_embed e ctx missing_perms)"
| "early_response e ctx (CheckFailure _) = None"
| "early_response e ctx (CommandIsOnCooldown retry_after _) =
     Some (cooldown_embed e ctx retry_after)"
| "early_response e ctx (CommandInvocationError (TimeoutError _) _) =
     Some (timed_out_embed ctx)"
| "early_response e ctx (CommandInvocationError (InternalServerError _) _) =
     Some (server_error_embed ctx)"
| "early_response e ctx (CommandInvocationError (ForbiddenError _) _) = None"
| "early_response e ctx (CommandInvocationError (RoleHierarchyError _) _) =
     Some (role_hierarchy_embed ctx)"
| "early_response e ctx (CommandInvocationError (OtherException _ _) _) = None"
| "early_response e ctx (LightbulbError _ _) = None"

definition unhandled_embed :: "sned_context \<Rightarrow> lightbulb_error \<Rightarrow> embed" where
  "unhandled_embed ctx error =
     (let (name, text) =
            (case error of
               CommandInvocationError orig _ \<Rightarrow> (original_class_name orig, original_str orig)
             | _ \<Rightarrow> (error_class_name error, error_str error))
      in \<lparr>title = cross_mark @ '' Unhandled exception'',
          description =
            ''An error happened that should not have happened. Please '' @
            ''[contact us](https://discord.gg/KNKr8FPmJa) with a screenshot of this message!'' @
            [newline] @ ''**Error:** ```'' @ name @ '': '' @ text @ ''```'',
          color = error_color ctx, embed_fields = [],
          footer = Some (''Guild: '' @ str_nat (guild_id ctx))\<rparr>)"

definition exception_msg :: "env \<Rightarrow> lightbulb_error \<Rightarrow> string" where
  "exception_msg e error = str_join [newline] (format_exception e error)"

definition application_error_handler ::
  "env \<Rightarrow> sned_context \<Rightarrow> lightbulb_error \<Rightarrow> event list \<times> outcome" where
  "application_error_handler e ctx error =
     (case early_response e ctx error of
        Some response \<Rightarrow> ([Respond response True], Returned)
      | None \<Rightarrow>
          (let logged =
                 [LoggingError (''Ignoring exception in command '' @ command_name ctx @ '':''),
                  LoggingError (exception_msg e error)];
               (sent, out) = log_error_to_homeguild e (exception_msg e error) (Some ctx) None
           in case out of
                Raised x \<Rightarrow> (logged @ sent, Raised x)
              | Returned \<Rightarrow>
                  (logged @ sent @ [Respond (unhandled_embed ctx error) True], Returned)))"

section \<open>\<open>extensions/settings.py\<close>: views\<close>

text \<open>
  The value a view ends with: \<open>None\<close>, a string (the label of an option button, the value
  of a select option, \<open>"Timeout"\<close>), a number (a channel or role id offered by a select) or the
  pair \<open>(label, state)\<close> of a boolean button.
\<close>

datatype pyvalue = VNone | VStr string | VInt nat | VTuple string bool

datatype button_style = PRIMARY | SECONDARY | SUCCESS | DANGER

definition heavy_check_mark :: string where
  "heavy_check_mark = [CHR 0xE2, CHR 0x9C, CHR 0x94, CHR 0xEF, CHR 0xB8, CHR 0x8F]"

definition heavy_multiplication_x :: string where
  "heavy_multiplication_x = [CHR 0xE2, CHR 0x9C, CHR 0x96, CHR 0xEF, CHR 0xB8, CHR 0x8F]"

definition left_arrow :: string where
  "left_arrow = [CHR 0xE2, CHR 0xAC, CHR 0x85, CHR 0xEF, CHR 0xB8, CHR 0x8F]"

definition warning_sign :: string where
  "warning_sign = [CHR 0xE2, CHR 0x9A, CHR 0xA0, CHR 0xEF, CHR 0xB8, CHR 0x8F]"

definition zero_width_space :: string where
  "zero_width_space = [CHR 0xE2, CHR 0x80, CHR 0x8B]"

text \<open>
  The items of a view. \<open>OptionButton label style emoji disabled\<close> sets the view's value to
  its label; \<open>BooleanButton state label disabled\<close> is drawn from its state (style SUCCESS and
  a check mark when on, DANGER and a cross when off) and sets the value to the label with the
  negated state; \<open>OptionsSelect options placeholder\<close> sets it to the value of the option
  chosen, an option being a label and a value.
\<close>

datatype item =
    OptionButton string button_style "string option" bool
  | BooleanButton bool string bool
  | OptionsSelect "(string \<times> pyvalue) list" string

definition boolean_button_style :: "bool \<Rightarrow> button_style" where
  "boolean_button_style state = (if state then SUCCESS else DANGER)"

definition boolean_button_emoji :: "bool \<Rightarrow> string" where
  "boolean_button_emoji state = (if state then heavy_check_mark else heavy_multiplication_x)"

definition BackButton :: item where
  "BackButton = OptionButton ''Back'' PRIMARY (Some left_arrow) False"

definition QuitButton :: item where
  "QuitButton = OptionButton ''Quit'' DANGER (Some left_arrow) False"

definition ButtonMenuView :: "item list \<Rightarrow> bool \<Rightarrow> item list" where
  "ButtonMenuView buttons is_nested =
     (if is_nested then BackButton else QuitButton) # buttons"

definition SelectMenuView :: "(string \<times> pyvalue) list \<Rightarrow> string \<Rightarrow> bool \<Rightarrow> item list" where
  "SelectMenuView options placeholder is_nested =
     [OptionsSelect options placeholder, if is_nested then BackButton else QuitButton]"

text \<open>
  What the user does in a session is a list of actions: pressing the button with a label,
  choosing the option with a value in a select, or typing a reply. A view takes the first
  action that one of its enabled items answers to; an action that no item of the view
  answers to cannot be performed on it and is passed over. When the user does nothing more,
  the view times out and \<open>on_timeout\<close> sets the value to \<open>"Timeout"\<close>.
\<close>

datatype action = Press string | Choose pyvalue | Reply string

fun callback :: "item \<Rightarrow> action \<Rightarrow> pyvalue option" where
  "callback (OptionButton label style emoji disabled) (Press l) =
     (if l = label \<and> \<not> disabled then Some (VStr label) else None)"
| "callback (BooleanButton state label disabled) (Press l) =
     (if l = label \<and> \<not> disabled then Some (VTuple label (\<not> state)) else None)"
| "callback (OptionsSelect options placeholder) (Choose v) =
     (if v \<in> set (map snd options) then Some v else None)"
| "callback _ _ = None"

fun interaction :: "item list \<Rightarrow> action \<Rightarrow> pyvalue option" where
  "interaction [] a = None"
| "interaction (i # items) a =
     (case callback i a of Some v \<Rightarrow> Some v | None \<Rightarrow> interaction items a)"

fun wait :: "item list \<Rightarrow> action list \<Rightarrow> pyvalue \<times> action list" where
  "wait view [] = (VStr ''Timeout'', [])"
| "wait view (a # ins) =
     (case interaction view a of Some v \<Rightarrow> (v, ins) | None \<Rightarrow> wait view ins)"

section \<open>\<open>extensions/settings.py\<close>: what the menus read and write\<close>

datatype channel = Channel nat string bool

fun channel_id_of :: "channel \<Rightarrow> nat" where
  "channel_id_of (Channel i n t) = i"

fun channel_name :: "channel \<Rightarrow> string" where
  "channel_name (Channel i n t) = n"

fun is_textable :: "channel \<Rightarrow> bool" where
  "is_textable (Channel i n t) = t"

definition channel_mention :: "channel \<Rightarrow> string" where
  "channel_mention c = ''<#'' @ str_nat (channel_id_of c) @ ''>''"

datatype role = Role nat string

fun role_id :: "role \<Rightarrow> nat" where
  "role_id (Role i n) = i"

fun role_name :: "role \<Rightarrow> string" where
  "role_name (Role i n) = n"

definition role_mention :: "role \<Rightarrow> string" where
  "role_mention r = ''<@&'' @ str_nat (role_id r) @ ''>''"

text \<open>
  The rows of the three configuration tables, each keyed by the guild id: the columns of
  \<open>mod_config\<close> are the moderation flags, a row of \<open>log_config\<close> holds the channel of each
  logging category and the \<open>color\<close> flag, a row of \<open>reports\<close> is the record that
  \<open>settings_report\<close> reads. \<open>next_message\<close> is the id the next message created gets.
\<close>

record log_row =
  log_channels :: "(string, nat option) dict"
  color_logs :: bool

record report_row =
  is_enabled :: bool
  channel_id :: "nat option"
  pinged_role_ids :: "nat list option"

record app_state =
  mod_config :: "nat \<Rightarrow> (string, bool) dict option"
  log_config :: "nat \<Rightarrow> log_row option"
  reports :: "nat \<Rightarrow> report_row option"
  next_message :: nat

text \<open>
  The statements the menus pass to \<open>pool.execute\<close>. Three tables are written with
  \<open>INSERT ... ON CONFLICT (guild_id) DO UPDATE SET\<close>, an upsert of one column; the colour flag
  of \<open>log_config\<close> is written with \<open>UPDATE log_config SET color = $1 WHERE guild_id = $2\<close>.
  The arguments are in the order of the source.
\<close>

datatype statement =
    Upsert_mod_config nat string bool
  | Update_log_config_color bool nat
  | Upsert_reports_is_enabled bool nat
  | Upsert_reports_channel_id nat nat
  | Upsert_reports_pinged_role_ids "nat list" nat

text \<open>
  What a session does to the outside: the response that creates the menu message (with the
  id of the message created), the edit and the deletion of a message (\<open>maybe_edit\<close> and
  \<open>maybe_delete\<close> swallow the platform's errors, so these are the attempts), a statement
  executed, a cache refresh for a table and a guild, the prompt of \<open>helpers.ask\<close>, the call of
  the logging plugin's \<open>set_log_channel\<close>, and a look-up \<open>menu_actions[key]\<close>.
\<close>

datatype effect =
    Respond_menu embed "item list" nat
  | EditMessage nat embed "item list"
  | DeleteMessage nat
  | Execute statement
  | Refresh string nat
  | AskPrompt "nat option" embed "(string \<times> pyvalue) list"
  | Set_log_channel string nat "nat option"
  | Dispatch pyvalue

type_synonym result = "effect list \<times> outcome"

definition prepend :: "effect list \<Rightarrow> result \<Rightarrow> result" where
  "prepend effects r = (effects @ fst r, snd r)"

text \<open>
  \<open>view.start(message)\<close> belongs to the component library. Every menu but the Reports menu
  starts its view on the result of \<open>helpers.maybe_edit\<close>, which is \<open>None\<close>; what the library
  does then is a parameter: it raises, or it starts a view that receives no interaction and
  times out, or it starts a view that works.
\<close>

datatype start_none = Start_raises py_error | Start_receives_nothing | Start_listens

text \<open>
  The parameters of a session, from outside this repository's three files: the two tables
  of \<open>etc.settings_static\<close>, the values the plugins report for a guild with no row, the
  guild's channels and roles in the cache, the bot's permissions in the guild, the
  converters of free text, the library's \<open>view.start\<close> on \<open>None\<close> and the colours of the
  application.
\<close>

record settings_env =
  mod_settings_strings :: "(string, string) dict"
  log_event_strings :: "(string, string) dict"
  mod_defaults :: "(string, bool) dict"
  log_defaults :: "(string, nat option) dict"
  color_default :: bool
  channels :: "(nat, channel) dict"
  roles :: "(nat, role) dict"
  bot_permissions :: permissions
  channel_of_text :: "string \<Rightarrow> channel option"
  role_of_text :: "string \<Rightarrow> role option"
  start_on_none :: start_none
  embed_blue :: nat
  app_error_color :: nat

text \<open>\<open>SettingsContext\<close> is the command context with one more attribute, \<open>parent\<close>.\<close>

record settings_context = sned_context +
  parent :: "string option"

definition start_and_wait ::
  "settings_env \<Rightarrow> item list \<Rightarrow> nat option \<Rightarrow> action list \<Rightarrow> py_error + (pyvalue \<times> action list)" where
  "start_and_wait e view message ins =
     (case message of
        Some m \<Rightarrow> Inr (wait view ins)
      | None \<Rightarrow>
          (case start_on_none e of
             Start_raises err \<Rightarrow> Inl err
           | Start_receives_nothing \<Rightarrow> Inr (VStr ''Timeout'', ins)
           | Start_listens \<Rightarrow> Inr (wait view ins)))"

text \<open>
  The storage. An upsert writes its column in the guild's row and makes the row when there
  is none, the other columns taking the values of a guild that has no row; the \<open>UPDATE\<close>
  changes the row of the guild and does nothing when there is none.
\<close>

definition empty_report_row :: report_row where
  "empty_report_row = \<lparr>is_enabled = False, channel_id = None, pinged_role_ids = None\<rparr>"

definition setitem :: "('k, 'v) dict \<Rightarrow> 'k \<Rightarrow> 'v \<Rightarrow> ('k, 'v) dict" where
  "setitem d k v =
     (if k \<in> set (dict_keys d) then map (\<lambda>(k', v'). if k' = k then (k', v) else (k', v')) d
      else d @ [(k, v)])"

definition report_row_of :: "app_state \<Rightarrow> nat \<Rightarrow> report_row" where
  "report_row_of s g = (case reports s g of None \<Rightarrow> empty_report_row | Some r \<Rightarrow> r)"

fun execute :: "settings_env \<Rightarrow> statement \<Rightarrow> app_state \<Rightarrow> app_state" where
  "execute e (Upsert_mod_config g option v) s =
     s\<lparr>mod_config := (mod_config s)
          (g \<mapsto> setitem (case mod_config s g of None \<Rightarrow> mod_defaults e | Some r \<Rightarrow> r) option v)\<rparr>"
| "execute e (Update_log_config_color v g) s =
     (case log_config s g of
        None \<Rightarrow> s
      | Some r \<Rightarrow> s\<lparr>log_config := (log_config s)(g \<mapsto> r\<lparr>color_logs := v\<rparr>)\<rparr>)"
| "execute e (Upsert_reports_is_enabled v g) s =
     s\<lparr>reports := (reports s)(g \<mapsto> (report_row_of s g)\<lparr>is_enabled := v\<rparr>)\<rparr>"
| "execute e (Upsert_reports_channel_id v g) s =
     s\<lparr>reports := (reports s)(g \<mapsto> (report_row_of s g)\<lparr>channel_id := Some v\<rparr>)\<rparr>"
| "execute e (Upsert_reports_pinged_role_ids v g) s =
     s\<lparr>reports := (reports s)(g \<mapsto> (report_row_of s g)\<lparr>pinged_role_ids := Some v\<rparr>)\<rparr>"

text \<open>
  Modelled from the spec: the plugins' \<open>get_settings\<close>, \<open>get_log_channel_ids_view\<close>,
  \<open>is_color_enabled\<close> and \<open>set_log_channel\<close>, and the cache's \<open>db_cache.get\<close>, are not in
  the sources. A menu "queries current config state for the guild": each read gives the
  guild's row as stored, and the values of a guild with no row otherwise; every write of a
  menu is followed by the refresh of the cache entry of its table and guild, so a read
  through the cache sees the row as stored. \<open>set_log_channel\<close> stores the channel of one
  logging category.
\<close>

definition get_settings :: "settings_env \<Rightarrow> app_state \<Rightarrow> nat \<Rightarrow> (string, bool) dict" where
  "get_settings e s g = (case mod_config s g of None \<Rightarrow> mod_defaults e | Some r \<Rightarrow> r)"

definition get_log_channel_ids_view ::
  "settings_env \<Rightarrow> app_state \<Rightarrow> nat \<Rightarrow> (string, nat option) dict" where
  "get_log_channel_ids_view e s g =
     (case log_config s g of None \<Rightarrow> log_defaults e | Some r \<Rightarrow> log_channels r)"

definition is_color_enabled :: "settings_env \<Rightarrow> app_state \<Rightarrow> nat \<Rightarrow> bool" where
  "is_color_enabled e s g =
     (case log_config s g of None \<Rightarrow> color_default e | Some r \<Rightarrow> color_logs r)"

definition db_cache_get_reports :: "app_state \<Rightarrow> nat \<Rightarrow> report_row list" where
  "db_cache_get_reports s g = (case reports s g of None \<Rightarrow> [] | Some r \<Rightarrow> [r])"

definition set_log_channel ::
  "settings_env \<Rightarrow> string \<Rightarrow> nat \<Rightarrow> nat option \<Rightarrow> app_state \<Rightarrow> app_state" where
  "set_log_channel e log_event g cid s =
     (let r = (case log_config s g of
                 None \<Rightarrow> \<lparr>log_channels = log_defaults e, color_logs = color_default e\<rparr>
               | Some r \<Rightarrow> r)
      in s\<lparr>log_config := (log_config s)
             (g \<mapsto> r\<lparr>log_channels := setitem (log_channels r) log_event cid\<rparr>)\<rparr>)"

text \<open>
  Modelled from the spec: \<open>helpers.ask\<close> is not in the sources. It shows a prompt with a
  select of the options and waits for one answer: an option chosen or a typed reply. A
  value in \<open>ignore\<close> is returned as it is; another answer is converted to the return
  type, and "a requested child resource" that "cannot be resolved from free-text input" ends
  the call with TypeError, which the menus catch; with no answer the call ends with
  \<open>asyncio.TimeoutError\<close>.
\<close>

datatype 'a asked = Answer 'a | Ignored string | Ask_TypeError | Ask_TimeoutError

fun ask ::
  "(pyvalue \<Rightarrow> 'a option) \<Rightarrow> (string \<Rightarrow> 'a option) \<Rightarrow> string list \<Rightarrow>
   (string \<times> pyvalue) list \<Rightarrow> action list \<Rightarrow> 'a asked \<times> action list" where
  "ask resolve convert ignore options [] = (Ask_TimeoutError, [])"
| "ask resolve convert ignore options (Choose v # ins) =
     (if v \<in> set (map snd options) then
        (case v of
           VStr x \<Rightarrow>
             if x \<in> set ignore then (Ignored x, ins)
             else (case resolve v of Some r \<Rightarrow> (Answer r, ins) | None \<Rightarrow> (Ask_TypeError, ins))
         | _ \<Rightarrow> (case resolve v of Some r \<Rightarrow> (Answer r, ins) | None \<Rightarrow> (Ask_TypeError, ins)))
      else ask resolve convert ignore options ins)"
| "ask resolve convert ignore options (Reply text # ins) =
     (case convert text of Some r \<Rightarrow> (Answer r, ins) | None \<Rightarrow> (Ask_TypeError, ins))"
| "ask resolve convert ignore options (Press l # ins) =
     ask resolve convert ignore options ins"

definition get_guild_channel :: "settings_env \<Rightarrow> nat \<Rightarrow> channel option" where
  "get_guild_channel e i = dict_get (channels e) i"

definition get_role :: "settings_env \<Rightarrow> nat \<Rightarrow> role option" where
  "get_role e i = dict_get (roles e) i"

definition resolve_channel :: "settings_env \<Rightarrow> pyvalue \<Rightarrow> channel option" where
  "resolve_channel e v =
     (case v of
        VInt i \<Rightarrow> (case get_guild_channel e i of
                     Some c \<Rightarrow> if is_textable c then Some c else None
                   | None \<Rightarrow> None)
      | _ \<Rightarrow> None)"

definition resolve_role :: "settings_env \<Rightarrow> pyvalue \<Rightarrow> role option" where
  "resolve_role e v = (case v of VInt i \<Rightarrow> get_role e i | _ \<Rightarrow> None)"

section \<open>\<open>extensions/settings.py\<close>: the menus\<close>

text \<open>
  The coroutines a session can be in. The first seven are the values of \<open>menu_actions\<close>;
  \<open>Error_view_handler embed return_to\<close> is the function of that name;
  \<open>Write_pinged_roles pinged_roles\<close> is the end of \<open>settings_report\<close>, from the statement
  that stores the pinged roles on, which three branches of that function reach; and
  \<open>Menu_action key\<close> is the call \<open>menu_actions[key](ctx, message)\<close>.
\<close>

datatype call =
    Settings_main
  | Settings_mod
  | Settings_automod
  | Settings_logging
  | Settings_report
  | Timeout_or_quit
  | Back
  | Error_view_handler embed string
  | Write_pinged_roles "role option list"
  | Menu_action pyvalue

definition menu_actions :: "(string, call) dict" where
  "menu_actions =
     [(''Main'', Settings_main),
      (''Moderation'', Settings_mod),
      (''Auto-Moderation'', Settings_automod),
      (''Logging'', Settings_logging),
      (''Reports'', Settings_report),
      (''Timeout'', Timeout_or_quit),
      (''Quit'', Timeout_or_quit),
      (''Back'', Back)]"

text \<open>
  \<open>menu_actions[key]\<close> raises KeyError for a key that is not registered (a pair is never
  one), and \<open>key in menu_actions.keys()\<close> is the test the nested menus make first.
\<close>

definition menu_action :: "pyvalue \<Rightarrow> py_error + call" where
  "menu_action key = (case key of VStr k \<Rightarrow> getitem menu_actions k | _ \<Rightarrow> Inl KeyError)"

definition in_menu_actions :: "pyvalue \<Rightarrow> bool" where
  "in_menu_actions key =
     (case key of VStr k \<Rightarrow> k \<in> set (dict_keys menu_actions) | _ \<Rightarrow> False)"

text \<open>
  \<open>helpers.maybe_delete\<close> and \<open>helpers.maybe_edit\<close> catch the platform's errors only: on
  \<open>None\<close> the attribute access raises AttributeError. \<open>maybe_edit\<close> has no \<open>return\<close>: its
  result is \<open>None\<close>, and a caller that assigns it to \<open>message\<close> has no message afterwards.
\<close>

definition maybe_delete :: "nat option \<Rightarrow> result" where
  "maybe_delete message =
     (case message of
        None \<Rightarrow> ([], Raised AttributeError)
      | Some m \<Rightarrow> ([DeleteMessage m], Returned))"

definition maybe_edit :: "nat option \<Rightarrow> embed \<Rightarrow> item list \<Rightarrow> py_error + effect list" where
  "maybe_edit message emb components =
     (case message of
        None \<Rightarrow> Inl AttributeError
      | Some m \<Rightarrow> Inr [EditMessage m emb components])"

definition timeout_or_quit :: "nat option \<Rightarrow> result" where
  "timeout_or_quit message = maybe_delete message"

subsection \<open>What each menu shows\<close>

definition main_embed :: "settings_env \<Rightarrow> embed" where
  "main_embed e =
     \<lparr>title = ''Sned Configuration'',
      description = ''**Welcome to settings!**'' @ [newline] @ ''        '' @ [newline] @
        ''        Here you can configure various aspects of the bot, such as moderation '' @
        ''settings, automoderator, logging options, permissions, and more. '' @ [newline] @
        ''        Click one of the buttons below to get started!'',
      color = embed_blue e, embed_fields = [], footer = None\<rparr>"

definition main_buttons :: "item list" where
  "main_buttons =
     [OptionButton ''Moderation'' PRIMARY None False,
      OptionButton ''Auto-Moderation'' PRIMARY None False,
      OptionButton ''Logging'' PRIMARY None False,
      OptionButton ''Reports'' PRIMARY None False]"

definition str_bool :: "bool \<Rightarrow> string" where
  "str_bool b = (if b then ''True'' else ''False'')"

fun mod_rows :: "(string, string) dict \<Rightarrow> (string, bool) dict \<Rightarrow> py_error + (string \<times> bool) list" where
  "mod_rows strings [] = Inr []"
| "mod_rows strings ((key, v) # settings) =
     (case getitem strings key of
        Inl err \<Rightarrow> Inl err
      | Inr label \<Rightarrow>
          (case mod_rows strings settings of
             Inl err \<Rightarrow> Inl err
           | Inr rows \<Rightarrow> Inr ((label, v) # rows)))"

definition mod_embed :: "settings_env \<Rightarrow> (string \<times> bool) list \<Rightarrow> embed" where
  "mod_embed e rows =
     \<lparr>title = ''Moderation Settings'',
      description = ''Below you can see the current moderation settings, to change any of '' @
        ''them, press the corresponding button!'',
      color = embed_blue e,
      embed_fields = map (\<lambda>(label, v). (label, str_bool v, True)) rows,
      footer = None\<rparr>"

definition mod_buttons :: "(string \<times> bool) list \<Rightarrow> item list" where
  "mod_buttons rows = map (\<lambda>(label, v). OptionButton label SECONDARY None False) rows"

definition get_key_of :: "(string, string) dict \<Rightarrow> pyvalue \<Rightarrow> py_error + string" where
  "get_key_of strings v = (case v of VStr label \<Rightarrow> get_key strings label | _ \<Rightarrow> Inl ValueError)"

definition VIEW_AUDIT_LOG :: permissions where
  "VIEW_AUDIT_LOG = push_bit 7 1"

fun log_rows ::
  "settings_env \<Rightarrow> (string, nat option) dict \<Rightarrow> py_error + (string \<times> string \<times> channel option) list" where
  "log_rows e [] = Inr []"
| "log_rows e ((log_category, cid) # rest) =
     (let channel = (case cid of
                       None \<Rightarrow> None
                     | Some i \<Rightarrow> if i \<noteq> 0 then get_guild_channel e i else None)
      in case getitem (log_event_strings e) log_category of
           Inl err \<Rightarrow> Inl err
         | Inr label \<Rightarrow>
             (case log_rows e rest of
                Inl err \<Rightarrow> Inl err
              | Inr rows \<Rightarrow> Inr ((label, log_category, channel) # rows)))"

definition logging_embed :: "settings_env \<Rightarrow> (string \<times> string \<times> channel option) list \<Rightarrow> embed" where
  "logging_embed e rows =
     \<lparr>title = ''Logging Settings'',
      description = ''Below you can see a list of logging events and channels associated '' @
        ''with them. To change where a certain event'' @ [CHR 0x27] @ ''s logs should be sent, '' @
        ''click on the corresponding button.'',
      color = embed_blue e,
      embed_fields =
        (if bot_permissions e AND VIEW_AUDIT_LOG = 0
         then [(warning_sign @ '' Warning!'',
                ''The bot currently has no permissions to view the audit logs! This will '' @
                ''severely limit logging capabilities. Please consider enabling '' @
                ''`View Audit Log` for the bot in your server'' @ [CHR 0x27] @ ''s settings!'',
                False)]
         else []) @
        map (\<lambda>(label, log_category, channel).
               (label, case channel of Some c \<Rightarrow> channel_mention c | None \<Rightarrow> ''*Not set*'', True))
          rows,
      footer = None\<rparr>"

definition logging_view :: "settings_env \<Rightarrow> app_state \<Rightarrow> nat \<Rightarrow> (string \<times> string \<times> channel option) list \<Rightarrow> item list" where
  "logging_view e s g rows =
     SelectMenuView (map (\<lambda>(label, log_category, channel). (label, VStr log_category)) rows)
       ''Select a logging category...'' True @
     [BooleanButton (is_color_enabled e s g) ''Color logs'' False]"

definition textable_channel_options :: "settings_env \<Rightarrow> (string \<times> pyvalue) list" where
  "textable_channel_options e =
     map (\<lambda>c. (''#'' @ channel_name c, VInt (channel_id_of c)))
       (filter is_textable (dict_values (channels e)))"

definition log_channel_prompt :: "settings_env \<Rightarrow> string \<Rightarrow> embed" where
  "log_channel_prompt e label =
     \<lparr>title = ''Logging Settings'',
      description = ''Please select a channel where the following event should be logged: `'' @
        label @ ''`'',
      color = embed_blue e, embed_fields = [], footer = None\<rparr>"

definition channel_not_found_embed :: "settings_env \<Rightarrow> embed" where
  "channel_not_found_embed e =
     \<lparr>title = cross_mark @ '' Channel not found.'',
      description = ''Unable to locate channel. Please type a channel mention or ID.'',
      color = app_error_color e, embed_fields = [], footer = None\<rparr>"

definition role_not_found_embed :: "settings_env \<Rightarrow> embed" where
  "role_not_found_embed e =
     \<lparr>title = cross_mark @ '' Role not found.'',
      description = ''Unable to locate role. Please type a role mention or ID.'',
      color = app_error_color e, embed_fields = [], footer = None\<rparr>"

definition role_not_pinged_embed :: "settings_env \<Rightarrow> embed" where
  "role_not_pinged_embed e =
     \<lparr>title = cross_mark @ '' Role not found.'',
      description = ''Unable to locate role, or it is not a pinged role.'',
      color = app_error_color e, embed_fields = [], footer = None\<rparr>"

definition is_toggle_of :: "string \<Rightarrow> pyvalue \<Rightarrow> bool" where
  "is_toggle_of label v = (case v of VTuple l b \<Rightarrow> l = label | _ \<Rightarrow> False)"

definition toggle_state :: "pyvalue \<Rightarrow> bool" where
  "toggle_state v = (case v of VTuple l b \<Rightarrow> b | _ \<Rightarrow> False)"

text \<open>
  The Reports menu reads the guild's record, or the record it makes up when there is none.
  \<open>list(set(all_roles) - set(pinged_roles))\<close> has no order of its own; the model keeps the
  order of the cache.
\<close>

definition report_record :: "app_state \<Rightarrow> nat \<Rightarrow> report_row" where
  "report_record s g =
     (case db_cache_get_reports s g of
        [] \<Rightarrow> \<lparr>is_enabled = False, channel_id = None, pinged_role_ids = None\<rparr>
      | r # records \<Rightarrow> r)"

definition pinged_roles_of :: "settings_env \<Rightarrow> report_row \<Rightarrow> role option list" where
  "pinged_roles_of e r =
     (case pinged_role_ids r of
        None \<Rightarrow> []
      | Some ids \<Rightarrow> if ids \<noteq> [] then map (get_role e) ids else [])"

definition unadded_roles_of :: "settings_env \<Rightarrow> role option list \<Rightarrow> role list" where
  "unadded_roles_of e pinged_roles =
     filter (\<lambda>r. Some r \<notin> set pinged_roles) (dict_values (roles e))"

definition report_channel :: "settings_env \<Rightarrow> report_row \<Rightarrow> channel option" where
  "report_channel e r =
     (case channel_id r of
        None \<Rightarrow> None
      | Some i \<Rightarrow> if i \<noteq> 0 then get_guild_channel e i else None)"

definition mentions_of :: "role option list \<Rightarrow> string list" where
  "mentions_of pinged_roles =
     concat (map (\<lambda>r. case r of Some x \<Rightarrow> [role_mention x] | None \<Rightarrow> []) pinged_roles)"

definition report_embed :: "settings_env \<Rightarrow> channel option \<Rightarrow> role option list \<Rightarrow> embed" where
  "report_embed e channel pinged_roles =
     \<lparr>title = ''Reports Settings'',
      description = ''Below you can see all settings for configuring the reporting of other '' @
        ''users or messages. This allows other users to flag suspicious content for review.'',
      color = embed_blue e,
      embed_fields =
        [(''Channel'', case channel of Some c \<Rightarrow> channel_mention c | None \<Rightarrow> ''*Not set*'', True),
         (zero_width_space, zero_width_space, True),
         (''Pinged Roles'',
          if str_join '' '' (mentions_of pinged_roles) = [] then ''*None set*''
          else str_join '' '' (mentions_of pinged_roles), True)],
      footer = None\<rparr>"

definition report_buttons :: "report_row \<Rightarrow> channel option \<Rightarrow> role list \<Rightarrow> role option list \<Rightarrow> item list" where
  "report_buttons r channel unadded_roles pinged_roles =
     [BooleanButton (if channel \<noteq> None then is_enabled r else False) ''Enabled'' (channel = None),
      OptionButton ''Set Channel'' PRIMARY None False,
      OptionButton ''Add Role'' PRIMARY None (unadded_roles = []),
      OptionButton ''Remove Role'' PRIMARY None (pinged_roles = [])]"

definition report_channel_prompt :: "settings_env \<Rightarrow> embed" where
  "report_channel_prompt e =
     \<lparr>title = ''Reports Settings'',
      description = ''Please select a channel where reports will be sent.'',
      color = embed_blue e, embed_fields = [], footer = None\<rparr>"

definition add_role_prompt :: "settings_env \<Rightarrow> embed" where
  "add_role_prompt e =
     \<lparr>title = ''Reports Settings'',
      description = ''Select a role to add to the list of roles that will be mentioned when '' @
        ''a new report is made.'',
      color = embed_blue e, embed_fields = [], footer = None\<rparr>"

definition remove_role_prompt :: "settings_env \<Rightarrow> embed" where
  "remove_role_prompt e =
     \<lparr>title = ''Reports Settings'',
      description = ''Remove a role from the list of roles that is mentioned when a new '' @
        ''report is made.'',
      color = embed_blue e, embed_fields = [], footer = None\<rparr>"

definition role_options :: "role list \<Rightarrow> (string \<times> pyvalue) list" where
  "role_options rs = map (\<lambda>r. (role_name r, VInt (role_id r))) rs"

text \<open>
  Reading \<open>role.name\<close> or \<open>role.id\<close> of every pinged role raises AttributeError when one of
  them is \<open>None\<close>, a role that is not in the cache.
\<close>

fun present_roles :: "role option list \<Rightarrow> py_error + role list" where
  "present_roles [] = Inr []"
| "present_roles (None # rs) = Inl AttributeError"
| "present_roles (Some r # rs) =
     (case present_roles rs of Inl err \<Rightarrow> Inl err | Inr xs \<Rightarrow> Inr (r # xs))"

subsection \<open>The order in which the menus call each other\<close>

text \<open>
  A view either takes an action of the user or times out with nothing taken, and a menu
  called on a timeout is \<open>timeout_or_quit\<close>, which calls nothing. So every call chain
  consumes the finite list of actions, and \<open>invoke\<close> is total.
\<close>

fun rank :: "call \<Rightarrow> nat" where
  "rank Timeout_or_quit = 0"
| "rank Settings_automod = 0"
| "rank Settings_main = 3"
| "rank Settings_mod = 3"
| "rank Settings_logging = 3"
| "rank Settings_report = 3"
| "rank (Error_view_handler emb return_to) = 3"
| "rank (Write_pinged_roles pinged_roles) = 4"
| "rank Back = 5"
| "rank (Menu_action key) =
     (case menu_action key of
        Inl err \<Rightarrow> 0
      | Inr Back \<Rightarrow> 6
      | Inr Timeout_or_quit \<Rightarrow> 1
      | Inr Settings_automod \<Rightarrow> 1
      | Inr target \<Rightarrow> 4)"

lemma wait_length:
  "wait view ins = (v, ins') \<Longrightarrow>
     length ins' < length ins \<or> (v = VStr ''Timeout'' \<and> ins' = ins)"
proof (induction ins)
  case Nil
  then show ?case by simp
next
  case (Cons a ins)
  show ?case
  proof (cases "interaction view a")
    case None
    with Cons.prems have "wait view ins = (v, ins')" by simp
    from Cons.IH [OF this] show ?thesis by auto
  next
    case (Some x)
    with Cons.prems show ?thesis by simp
  qed
qed

lemma start_and_wait_length:
  "start_and_wait e view message ins = Inr (v, ins') \<Longrightarrow>
     length ins' < length ins \<or> (v = VStr ''Timeout'' \<and> ins' = ins)"
  by (auto simp: start_and_wait_def dest: wait_length split: option.splits start_none.splits)

lemma ask_length:
  "ask resolve convert ignore options ins = (a, ins') \<Longrightarrow> length ins' \<le> length ins"
proof (induction ins)
  case Nil
  then show ?case by simp
next
  case (Cons x ins)
  show ?case
  proof (cases x)
    case (Press l)
    with Cons show ?thesis by fastforce
  next
    case (Choose v)
    with Cons show ?thesis
      by (cases "v \<in> set (map snd options)")
         (fastforce split: pyvalue.splits if_splits option.splits)+
  next
    case (Reply t)
    with Cons.prems show ?thesis by (auto split: option.splits)
  qed
qed

lemma menu_action_Timeout: "menu_action (VStr ''Timeout'') = Inr Timeout_or_quit"
  by (simp add: menu_action_def menu_actions_def getitem_def)

lemma in_menu_actions_Timeout: "in_menu_actions (VStr ''Timeout'')"
  by (simp add: in_menu_actions_def menu_actions_def dict_keys_def)

lemma rank_Menu_action_Timeout: "rank (Menu_action (VStr ''Timeout'')) = 1"
  by (simp add: menu_action_Timeout)

lemma menu_action_cases:
  "menu_action key = Inr target \<Longrightarrow>
     target \<in> {Settings_main, Settings_mod, Settings_automod, Settings_logging,
       Settings_report, Timeout_or_quit, Back}"
  by (auto simp: menu_action_def menu_actions_def getitem_def
      split: pyvalue.splits if_splits)

lemma rank_target: "menu_action key = Inr target \<Longrightarrow> rank target < rank (Menu_action key)"
  by (frule menu_action_cases) auto

lemma rank_not_back:
  "menu_action key \<noteq> Inr Back \<Longrightarrow> rank (Menu_action key) < 5"
  by (cases "menu_action key") (auto dest: menu_action_cases)

subsection \<open>The menu functions\<close>

text \<open>
  \<open>invoke e c ctx message s ins\<close> runs the coroutine \<open>c\<close> with the arguments
  \<open>(ctx, message)\<close> on the application state \<open>s\<close>, the user doing \<open>ins\<close>, and gives the
  effects of the session from there on and how it ends. One equation is one function of the
  source. The assignments to \<open>ctx.parent\<close> are the record updates of \<open>ctx\<close>; after
  \<open>message = await helpers.maybe_edit(...)\<close> the message is \<open>None\<close>. \<open>back\<close> on a
  parent that is \<open>"Back"\<close> itself would call itself without end, which Python stops with
  RecursionError.
\<close>

function invoke ::
  "settings_env \<Rightarrow> call \<Rightarrow> settings_context \<Rightarrow> nat option \<Rightarrow> app_state \<Rightarrow> action list \<Rightarrow> result" where
  "invoke e (Menu_action key) ctx message s ins =
     prepend [Dispatch key]
       (case menu_action key of
          Inl err \<Rightarrow> ([], Raised err)
        | Inr target \<Rightarrow> invoke e target ctx message s ins)"
| "invoke e Timeout_or_quit ctx message s ins = timeout_or_quit message"
| "invoke e Settings_automod ctx message s ins = ([], Returned)"
| "invoke e Back ctx message s ins =
     (case parent ctx of
        None \<Rightarrow> ([], Returned)
      | Some p \<Rightarrow>
          if p = [] then ([], Returned)
          else if menu_action (VStr p) = Inr Back
            then ([Dispatch (VStr p)], Raised RecursionError)
          else invoke e (Menu_action (VStr p)) ctx message s ins)"
| "invoke e Settings_main ctx message s ins =
     (let view = ButtonMenuView main_buttons False;
          ctx' = ctx\<lparr>parent := None\<rparr>
      in case message of
           Some m \<Rightarrow>
             prepend [EditMessage m (main_embed e) view]
               (case start_and_wait e view None ins of
                  Inl err \<Rightarrow> ([], Raised err)
                | Inr (v, ins') \<Rightarrow> invoke e (Menu_action v) ctx' None s ins')
         | None \<Rightarrow>
             prepend [Respond_menu (main_embed e) view (next_message s)]
               (case start_and_wait e view (Some (next_message s)) ins of
                  Inl err \<Rightarrow> ([], Raised err)
                | Inr (v, ins') \<Rightarrow>
                    invoke e (Menu_action v) ctx' (Some (next_message s))
                      (s\<lparr>next_message := Suc (next_message s)\<rparr>) ins'))"
| "invoke e Settings_mod ctx message s ins =
     (let mod_settings = get_settings e s (guild_id ctx)
      in case mod_rows (mod_settings_strings e) mod_settings of
           Inl err \<Rightarrow> ([], Raised err)
         | Inr rows \<Rightarrow>
             (let view = ButtonMenuView (mod_buttons rows) True;
                  ctx' = ctx\<lparr>parent := Some ''Main''\<rparr>
              in case maybe_edit message (mod_embed e rows) view of
                   Inl err \<Rightarrow> ([], Raised err)
                 | Inr edited \<Rightarrow>
                     prepend edited
                       (case start_and_wait e view None ins of
                          Inl err \<Rightarrow> ([], Raised err)
                        | Inr (v, ins') \<Rightarrow>
                            if in_menu_actions v
                            then invoke e (Menu_action v) ctx' None s ins'
                            else
                              (case get_key_of (mod_settings_strings e) v of
                                 Inl err \<Rightarrow> ([], Raised err)
                               | Inr option \<Rightarrow>
                                   (case getitem mod_settings option of
                                      Inl err \<Rightarrow> ([], Raised err)
                                    | Inr current \<Rightarrow>
                                        prepend
                                          [Execute (Upsert_mod_config (guild_id ctx) option (\<not> current)),
                                           Refresh ''mod_config'' (guild_id ctx)]
                                          (invoke e Settings_mod ctx' None
                                             (execute e (Upsert_mod_config (guild_id ctx) option (\<not> current)) s)
                                             ins'))))))"
| "invoke e Settings_logging ctx message s ins =
     (case log_rows e (get_log_channel_ids_view e s (guild_id ctx)) of
        Inl err \<Rightarrow> ([], Raised err)
      | Inr rows \<Rightarrow>
          (let view = logging_view e s (guild_id ctx) rows;
               ctx' = ctx\<lparr>parent := Some ''Main''\<rparr>
           in case maybe_edit message (logging_embed e rows) view of
                Inl err \<Rightarrow> ([], Raised err)
              | Inr edited \<Rightarrow>
                  prepend edited
                    (case start_and_wait e view None ins of
                       Inl err \<Rightarrow> ([], Raised err)
                     | Inr (v, ins') \<Rightarrow>
                         if in_menu_actions v
                         then invoke e (Menu_action v) ctx' None s ins'
                         else if is_toggle_of ''Color logs'' v
                         then
                           prepend
                             [Execute (Update_log_config_color (toggle_state v) (guild_id ctx)),
                              Refresh ''log_config'' (guild_id ctx)]
                             (invoke e Settings_logging ctx' None
                                (execute e (Update_log_config_color (toggle_state v) (guild_id ctx)) s)
                                ins')
                         else
                           (case v of
                              VStr log_event \<Rightarrow>
                                (case getitem (log_event_strings e) log_event of
                                   Inl err \<Rightarrow> ([], Raised err)
                                 | Inr label \<Rightarrow>
                                     (let options = (''Disable'', VStr ''disable'') # textable_channel_options e
                                      in prepend [AskPrompt None (log_channel_prompt e label) options]
                                           (case ask (resolve_channel e) (channel_of_text e) [''disable'']
                                                   options ins' of
                                              (Ask_TypeError, ins'') \<Rightarrow>
                                                invoke e (Error_view_handler (channel_not_found_embed e) ''Logging'')
                                                  ctx' None s ins''
                                            | (Ask_TimeoutError, ins'') \<Rightarrow>
                                                prepend [Dispatch (VStr ''Quit'')] (timeout_or_quit None)
                                            | (Ignored x, ins'') \<Rightarrow>
                                                if x = ''disable''
                                                then
                                                  prepend [Set_log_channel log_event (guild_id ctx) None]
                                                    (invoke e Settings_logging ctx' None
                                                       (set_log_channel e log_event (guild_id ctx) None s) ins'')
                                                else ([], Raised AttributeError)
                                            | (Answer channel, ins'') \<Rightarrow>
                                                prepend
                                                  [Set_log_channel log_event (guild_id ctx)
                                                     (Some (channel_id_of channel))]
                                                  (invoke e Settings_logging ctx' None
                                                     (set_log_channel e log_event (guild_id ctx)
                                                        (Some (channel_id_of channel)) s)
                                                     ins''))))
                            | _ \<Rightarrow> ([], Raised KeyError)))))"
| "invoke e (Error_view_handler emb return_to) ctx message s ins =
     (let ctx' = ctx\<lparr>parent := Some return_to\<rparr>;
          view = ButtonMenuView [] True
      in case maybe_edit message emb view of
           Inl err \<Rightarrow> ([], Raised err)
         | Inr edited \<Rightarrow>
             prepend edited
               (case start_and_wait e view message ins of
                  Inl err \<Rightarrow> ([], Raised err)
                | Inr (v, ins') \<Rightarrow> invoke e (Menu_action v) ctx' message s ins'))"
| "invoke e Settings_report ctx message s ins =
     (let r = report_record s (guild_id ctx);
          pinged_roles = pinged_roles_of e r;
          unadded_roles = unadded_roles_of e pinged_roles;
          channel = report_channel e r;
          ctx' = ctx\<lparr>parent := Some ''Main''\<rparr>;
          view = ButtonMenuView (report_buttons r channel unadded_roles pinged_roles) True
      in case maybe_edit message (report_embed e channel pinged_roles) view of
           Inl err \<Rightarrow> ([], Raised err)
         | Inr edited \<Rightarrow>
             prepend edited
               (case start_and_wait e view message ins of
                  Inl err \<Rightarrow> ([], Raised err)
                | Inr (v, ins') \<Rightarrow>
                    if in_menu_actions v
                    then invoke e (Menu_action v) ctx' message s ins'
                    else if is_toggle_of ''Enabled'' v
                    then
                      prepend
                        [Execute (Upsert_reports_is_enabled (toggle_state v) (guild_id ctx)),
                         Refresh ''reports'' (guild_id ctx)]
                        (invoke e Settings_report ctx' message
                           (execute e (Upsert_reports_is_enabled (toggle_state v) (guild_id ctx)) s)
                           ins')
                    else if v = VStr ''Set Channel''
                    then
                      prepend [AskPrompt message (report_channel_prompt e) (textable_channel_options e)]
                        (case ask (resolve_channel e) (channel_of_text e) []
                                (textable_channel_options e) ins' of
                           (Ask_TypeError, ins'') \<Rightarrow>
                             invoke e (Error_view_handler (channel_not_found_embed e) ''Reports'')
                               ctx' message s ins''
                         | (Ask_TimeoutError, ins'') \<Rightarrow>
                             prepend [Dispatch (VStr ''Quit'')]
                               (case snd (timeout_or_quit message) of
                                  Raised err \<Rightarrow> timeout_or_quit message
                                | Returned \<Rightarrow>
                                    prepend (fst (timeout_or_quit message))
                                      (invoke e (Write_pinged_roles pinged_roles) ctx' message s ins''))
                         | (Ignored x, ins'') \<Rightarrow> ([], Raised AttributeError)
                         | (Answer channel, ins'') \<Rightarrow>
                             prepend
                               [Execute (Upsert_reports_channel_id (channel_id_of channel) (guild_id ctx)),
                                Refresh ''reports'' (guild_id ctx)]
                               (invoke e Settings_report ctx' message
                                  (execute e
                                     (Upsert_reports_channel_id (channel_id_of channel) (guild_id ctx)) s)
                                  ins''))
                    else if v = VStr ''Add Role''
                    then
                      prepend [AskPrompt message (add_role_prompt e) (role_options unadded_roles)]
                        (case ask (resolve_role e) (role_of_text e) []
                                (role_options unadded_roles) ins' of
                           (Ask_TypeError, ins'') \<Rightarrow>
                             invoke e (Error_view_handler (role_not_found_embed e) ''Reports'')
                               ctx' message s ins''
                         | (Ask_TimeoutError, ins'') \<Rightarrow>
                             prepend [Dispatch (VStr ''Quit'')]
                               (case snd (timeout_or_quit message) of
                                  Raised err \<Rightarrow> timeout_or_quit message
                                | Returned \<Rightarrow>
                                    prepend (fst (timeout_or_quit message))
                                      (invoke e (Write_pinged_roles pinged_roles) ctx' message s ins''))
                         | (Ignored x, ins'') \<Rightarrow> ([], Raised AttributeError)
                         | (Answer role, ins'') \<Rightarrow>
                             invoke e (Write_pinged_roles (pinged_roles @ [Some role]))
                               ctx' message s ins'')
                    else if v = VStr ''Remove Role''
                    then
                      (case present_roles pinged_roles of
                         Inl err \<Rightarrow> ([], Raised err)
                       | Inr present \<Rightarrow>
                           prepend [AskPrompt message (remove_role_prompt e) (role_options present)]
                             (case ask (resolve_role e) (role_of_text e) []
                                     (role_options present) ins' of
                                (Ask_TypeError, ins'') \<Rightarrow>
                                  invoke e (Error_view_handler (role_not_pinged_embed e) ''Reports'')
                                    ctx' message s ins''
                              | (Ask_TimeoutError, ins'') \<Rightarrow>
                                  prepend [Dispatch (VStr ''Quit'')]
                                    (case snd (timeout_or_quit message) of
                                       Raised err \<Rightarrow> timeout_or_quit message
                                     | Returned \<Rightarrow>
                                         prepend (fst (timeout_or_quit message))
                                           (invoke e (Write_pinged_roles pinged_roles)
                                              ctx' message s ins''))
                              | (Ignored x, ins'') \<Rightarrow>
                                  invoke e (Error_view_handler (role_not_pinged_embed e) ''Reports'')
                                    ctx' message s ins''
                              | (Answer role, ins'') \<Rightarrow>
                                  if Some role \<in> set pinged_roles
                                  then invoke e (Write_pinged_roles (remove1 (Some role) pinged_roles))
                                         ctx' message s ins''
                                  else invoke e (Error_view_handler (role_not_pinged_embed e) ''Reports'')
                                         ctx' message s ins''))
                    else invoke e (Write_pinged_roles pinged_roles) ctx' message s ins'))"
| "invoke e (Write_pinged_roles pinged_roles) ctx message s ins =
     (case present_roles pinged_roles of
        Inl err \<Rightarrow> ([], Raised err)
      | Inr present \<Rightarrow>
          prepend
            [Execute (Upsert_reports_pinged_role_ids (map role_id present) (guild_id ctx)),
             Refresh ''reports'' (guild_id ctx)]
            (invoke e Settings_report ctx message
               (execute e (Upsert_reports_pinged_role_ids (map role_id present) (guild_id ctx)) s)
               ins))"
  by pat_completeness auto


definition invoke_order ::
  "((settings_env \<times> call \<times> settings_context \<times> nat option \<times> app_state \<times> action list) \<times>
    (settings_env \<times> call \<times> settings_context \<times> nat option \<times> app_state \<times> action list)) set" where
  "invoke_order =
     measures [\<lambda>(e, c, ctx, m, s, ins). length ins, \<lambda>(e, c, ctx, m, s, ins). rank c]"

lemma wf_invoke_order: "wf invoke_order"
  by (simp add: invoke_order_def)

lemma invoke_order_iff:
  "((e', c', ctx', m', s', ins'), (e, c, ctx, m, s, ins)) \<in> invoke_order \<longleftrightarrow>
     length ins' < length ins \<or> (length ins' = length ins \<and> rank c' < rank c)"
  by (simp add: invoke_order_def)

lemma rel_target:
  "menu_action key = Inr target \<Longrightarrow>
     ((e, target, ctx, m, s, ins), (e, Menu_action key, ctx, m, s, ins)) \<in> invoke_order"
  unfolding invoke_order_iff using rank_target by blast

lemma rel_back:
  "menu_action key \<noteq> Inr Back \<Longrightarrow>
     ((e, Menu_action key, ctx, m, s, ins), (e, Back, ctx, m, s, ins)) \<in> invoke_order"
  unfolding invoke_order_iff using rank_not_back [of key] by simp

lemma rel_menu_action:
  assumes "start_and_wait e view m0 ins = Inr b" and "(v, y) = b" and "1 < rank c"
  shows "((e, Menu_action v, ctx', m', s', y), (e, c, ctx, m, s, ins)) \<in> invoke_order"
proof -
  from assms(1,2) have "start_and_wait e view m0 ins = Inr (v, y)" by simp
  from start_and_wait_length [OF this] show ?thesis
  proof
    assume "length y < length ins"
    then show ?thesis by (simp add: invoke_order_iff)
  next
    assume "v = VStr ''Timeout'' \<and> y = ins"
    with assms(3) rank_Menu_action_Timeout show ?thesis
      by (simp only: invoke_order_iff) simp
  qed
qed

lemma rel_consumed:
  assumes "start_and_wait e view m0 ins = Inr b" and "(v, y) = b" and "\<not> in_menu_actions v"
    and "length y' \<le> length y"
  shows "((e, c', ctx', m', s', y'), (e, c, ctx, m, s, ins)) \<in> invoke_order"
proof -
  from assms(1,2) have "start_and_wait e view m0 ins = Inr (v, y)" by simp
  from start_and_wait_length [OF this] assms(3) in_menu_actions_Timeout
  have "length y < length ins" by auto
  with assms(4) show ?thesis by (simp add: invoke_order_iff)
qed

lemma ask_length':
  "(a, ins') = ask resolve convert ignore options ins \<Longrightarrow> length ins' \<le> length ins"
  using ask_length [of resolve convert ignore options ins a ins'] by simp

lemma rel_write:
  "((e, Settings_report, ctx', m', s', ins), (e, Write_pinged_roles p, ctx, m, s, ins)) \<in> invoke_order"
  by (simp add: invoke_order_iff)

termination invoke
  apply (relation invoke_order)
  apply (rule wf_invoke_order)
  apply (erule rel_target)
  apply (erule rel_back)
  apply (erule (1) rel_menu_action, simp)
  apply (erule (1) rel_menu_action, simp)
  apply (erule (1) rel_menu_action, simp)
  apply (erule (2) rel_consumed, simp)
  apply (erule (1) rel_menu_action, simp)
  apply (erule (2) rel_consumed, simp)
  apply (erule (2) rel_consumed, erule ask_length')
  apply (erule (2) rel_consumed, erule ask_length')
  apply (erule (2) rel_consumed, erule ask_length')
  apply (erule (1) rel_menu_action, simp)
  apply (erule (1) rel_menu_action, simp)
  apply (erule (2) rel_consumed, simp)
  apply (erule (2) rel_consumed, erule ask_length')
  apply (erule (2) rel_consumed, erule ask_length')
  apply (erule (2) rel_consumed, erule ask_length')
  apply (erule (2) rel_consumed, erule ask_length')
  apply (erule (2) rel_consumed, erule ask_length')
  apply (erule (2) rel_consumed, erule ask_length')
  apply (erule (2) rel_consumed, erule ask_length')
  apply (erule (2) rel_consumed, erule ask_length')
  apply (erule (2) rel_consumed, erule ask_length')
  apply (erule (2) rel_consumed, erule ask_length')
  apply (erule (2) rel_consumed, erule ask_length')
  apply (erule (2) rel_consumed, simp)
  apply (rule rel_write)
  done

declare invoke.simps [simp del]

text \<open>
  The slash command: it makes the \<open>SettingsContext\<close>, whose \<open>parent\<close> is \<open>None\<close>, and
  calls \<open>settings_main\<close> with no message.
\<close>

definition settings_cmd ::
  "settings_env \<Rightarrow> settings_context \<Rightarrow> app_state \<Rightarrow> action list \<Rightarrow> result" where
  "settings_cmd e ctx s ins = invoke e Settings_main (ctx\<lparr>parent := None\<rparr>) None s ins"

section \<open>Registered keys\<close>

text \<open>
  A look-up \<open>menu_actions[key]\<close> is registered when \<open>key\<close> is a key of the table. A call is
  well-formed when the key it looks up, or the menu an error panel returns to, is registered;
  a context is when its parent is \<open>None\<close>, empty or registered.
\<close>

fun registered_effect :: "effect \<Rightarrow> bool" where
  "registered_effect (Dispatch key) = in_menu_actions key"
| "registered_effect _ = True"

fun registered_call :: "call \<Rightarrow> bool" where
  "registered_call (Menu_action key) = in_menu_actions key"
| "registered_call (Error_view_handler emb return_to) = in_menu_actions (VStr return_to)"
| "registered_call _ = True"

definition registered_parent :: "settings_context \<Rightarrow> bool" where
  "registered_parent ctx =
     (case parent ctx of None \<Rightarrow> True | Some p \<Rightarrow> p = [] \<or> in_menu_actions (VStr p))"

definition registered_result :: "result \<Rightarrow> bool" where
  "registered_result r = list_all registered_effect (fst r)"

section \<open>A guild for the examples\<close>

text \<open>
  A guild with two moderation flags, two logging categories, a text channel, a voice
  channel and one role, and no row in any table; its menus are those of a session that
  begins with message 100.
\<close>

definition example_env :: settings_env where
  "example_env =
     \<lparr>mod_settings_strings =
        [(''dm_users_on_punish'', ''DM users on punishment''),
         (''is_ephemeral'', ''Send mod commands ephemerally'')],
      log_event_strings = [(''ban'', ''Ban''), (''kick'', ''Kick'')],
      mod_defaults = [(''dm_users_on_punish'', True), (''is_ephemeral'', False)],
      log_defaults = [(''ban'', None), (''kick'', None)],
      color_default = False,
      channels = [(10, Channel 10 ''general'' True), (11, Channel 11 ''voice'' False)],
      roles = [(20, Role 20 ''mods'')],
      bot_permissions = 128,
      channel_of_text = (\<lambda>text. if text = ''general'' then Some (Channel 10 ''general'' True) else None),
      role_of_text = (\<lambda>text. if text = ''mods'' then Some (Role 20 ''mods'') else None),
      start_on_none = Start_listens,
      embed_blue = 1, app_error_color = 2\<rparr>"

definition example_ctx :: settings_context where
  "example_ctx =
     \<lparr>guild_name = ''Home'', guild_id = 7, command_name = ''settings'', author = ''mod'',
      author_id = 9, config = [], error_color = 2, parent = None\<rparr>"

definition example_state :: app_state where
  "example_state =
     \<lparr>mod_config = (\<lambda>g. None), log_config = (\<lambda>g. None), reports = (\<lambda>g. None),
      next_message = 100\<rparr>"

section \<open>Properties of \<open>includes_permissions\<close>\<close>






section \<open>Properties of \<open>get_key\<close>\<close>

lemma index_first_hd:
  "\<exists>i<length (v # xs). index (v # xs) v = Inr i \<and> (v # xs) ! i = v \<and> (\<forall>j<i. (v # xs) ! j \<noteq> v)"
  by (rule exI [of _ 0]) simp

lemma index_first_tl:
  assumes "x \<noteq> v" "i < length xs" "index xs v = Inr i" "xs ! i = v" "\<forall>j<i. xs ! j \<noteq> v"
  shows "\<exists>i<length (x # xs). index (x # xs) v = Inr i \<and> (x # xs) ! i = v \<and> (\<forall>j<i. (x # xs) ! j \<noteq> v)"
proof (rule exI [of _ "Suc i"], intro conjI allI impI)
  show "Suc i < length (x # xs)" using assms(2) by simp
  show "index (x # xs) v = Inr (Suc i)" using assms(1,3) by simp
  show "(x # xs) ! Suc i = v" using assms(4) by simp
  fix j assume j: "j < Suc i"
  show "(x # xs) ! j \<noteq> v"
  proof (cases j)
    case 0
    with assms(1) show ?thesis by simp
  next
    case (Suc m)
    with j assms(5) show ?thesis by simp
  qed
qed

lemma index_first:
  "v \<in> set xs \<Longrightarrow>
     \<exists>i<length xs. index xs v = Inr i \<and> xs ! i = v \<and> (\<forall>j<i. xs ! j \<noteq> v)"
proof (induction xs)
  case Nil
  then show ?case by simp
next
  case (Cons x xs)
  show ?case
  proof (cases "x = v")
    case True
    then show ?thesis using index_first_hd [of v xs] by simp
  next
    case False
    with Cons.prems have "v \<in> set xs" by simp
    from Cons.IH [OF this] obtain i where
      "i < length xs" "index xs v = Inr i" "xs ! i = v" "\<forall>j<i. xs ! j \<noteq> v"
      by blast
    with False show ?thesis by (rule index_first_tl)
  qed
qed

lemma index_absent: "v \<notin> set xs \<Longrightarrow> index xs v = Inl ValueError"
  by (induction xs) auto

lemma get_key_first:
  assumes "v \<in> set (dict_values d)"
  shows "\<exists>i<length d. get_key d v = Inr (fst (d ! i)) \<and> snd (d ! i) = v \<and>
           (\<forall>j<i. snd (d ! j) \<noteq> v)"
proof -
  from index_first [OF assms] obtain i where
    i: "i < length d" "index (dict_values d) v = Inr i" "dict_values d ! i = v"
       "\<forall>j<i. dict_values d ! j \<noteq> v"
    by (auto simp: dict_values_def)
  have "get_key d v = Inr (fst (d ! i))"
    using i(1,2) by (simp add: get_key_def item_def dict_keys_def)
  moreover have "snd (d ! i) = v"
    using i(1,3) by (simp add: dict_values_def)
  moreover have "\<forall>j<i. snd (d ! j) \<noteq> v"
    using i(1,4) by (simp add: dict_values_def)
  ultimately show ?thesis using i(1) by blast
qed

lemma get_key_roundtrip:
  assumes dv: "distinct (dict_values d)" and g: "getitem d k = Inr x"
  shows "get_key d x = Inr k"
proof -
  from g have m: "map_of d k = Some x"
    by (simp add: getitem_def split: option.splits)
  then have mem: "(k, x) \<in> set d" by (rule map_of_SomeD)
  then have "x \<in> set (dict_values d)" by (force simp: dict_values_def)
  from get_key_first [OF this] obtain i where
    i: "i < length d" "get_key d x = Inr (fst (d ! i))" "snd (d ! i) = x" by blast
  from mem obtain j where j: "j < length d" "d ! j = (k, x)"
    by (auto simp: in_set_conv_nth)
  have "dict_values d ! i = dict_values d ! j"
    using i j by (simp add: dict_values_def)
  moreover have "i < length (dict_values d)" "j < length (dict_values d)"
    using i(1) j(1) by (simp_all add: dict_values_def)
  ultimately have "i = j"
    using dv by (simp add: nth_eq_iff_index_eq)
  with i(2) j(2) show ?thesis by simp
qed

text \<open>
  Claim C10. When \<open>v\<close> is among the values of the dictionary, \<open>get_key\<close> returns
  the first key, in insertion order, whose value is \<open>v\<close>. So in a dictionary whose values
  are pairwise distinct, \<open>get_key d (d[k])\<close> is \<open>k\<close> for every key \<open>k\<close> of \<open>d\<close>.
\<close>

theorem get_key_spec:
  "(v \<in> set (dict_values d) \<longrightarrow>
      (\<exists>i<length d. get_key d v = Inr (fst (d ! i)) \<and> snd (d ! i) = v \<and>
         (\<forall>j<i. snd (d ! j) \<noteq> v))) \<and>
   (distinct (dict_keys d) \<and> distinct (dict_values d) \<longrightarrow>
      (\<forall>k x. getitem d k = Inr x \<longrightarrow> get_key d x = Inr k))"
proof (intro conjI impI allI)
  assume "v \<in> set (dict_values d)"
  then show "\<exists>i<length d. get_key d v = Inr (fst (d ! i)) \<and> snd (d ! i) = v \<and>
         (\<forall>j<i. snd (d ! j) \<noteq> v)"
    by (rule get_key_first)
next
  fix k x
  assume "distinct (dict_keys d) \<and> distinct (dict_values d)" and "getitem d k = Inr x"
  then show "get_key d x = Inr k"
    using get_key_roundtrip [of d k x] by simp
qed

theorem get_key_spec_witness:
  "''B'' \<in> set (dict_values [(''a'', ''A''), (''b'', ''B''), (''c'', ''B'')]) \<and>
   (\<exists>i<length [(''a'', ''A''), (''b'', ''B''), (''c'', ''B'')].
      get_key [(''a'', ''A''), (''b'', ''B''), (''c'', ''B'')] ''B'' =
        Inr (fst ([(''a'', ''A''), (''b'', ''B''), (''c'', ''B'')] ! i)) \<and>
      snd ([(''a'', ''A''), (''b'', ''B''), (''c'', ''B'')] ! i) = ''B'') \<and>
   distinct (dict_keys [(''a'', ''A''), (''b'', ''B'')]) \<and>
   distinct (dict_values [(''a'', ''A''), (''b'', ''B'')]) \<and>
   getitem [(''a'', ''A''), (''b'', ''B'')] ''b'' = Inr ''B'' \<and>
   get_key [(''a'', ''A''), (''b'', ''B'')] ''B'' = Inr ''b''"
proof -
  have m: "''B'' \<in> set (dict_values [(''a'', ''A''), (''b'', ''B''), (''c'', ''B'')])"
    by (simp add: dict_values_def)
  have k: "distinct (dict_keys [(''a'', ''A''), (''b'', ''B'')])"
    by (simp add: dict_keys_def)
  have v: "distinct (dict_values [(''a'', ''A''), (''b'', ''B'')])"
    by (simp add: dict_values_def)
  have g: "getitem [(''a'', ''A''), (''b'', ''B'')] ''b'' = Inr ''B''"
    by (simp add: getitem_def)
  note a = get_key_spec [THEN conjunct1, rule_format, OF m]
  have a': "\<exists>i<length [(''a'', ''A''), (''b'', ''B''), (''c'', ''B'')].
      get_key [(''a'', ''A''), (''b'', ''B''), (''c'', ''B'')] ''B'' =
        Inr (fst ([(''a'', ''A''), (''b'', ''B''), (''c'', ''B'')] ! i)) \<and>
      snd ([(''a'', ''A''), (''b'', ''B''), (''c'', ''B'')] ! i) = ''B''"
  proof -
    from a obtain i where "i < length [(''a'', ''A''), (''b'', ''B''), (''c'', ''B'')]"
      and "get_key [(''a'', ''A''), (''b'', ''B''), (''c'', ''B'')] ''B'' =
        Inr (fst ([(''a'', ''A''), (''b'', ''B''), (''c'', ''B'')] ! i))"
      and "snd ([(''a'', ''A''), (''b'', ''B''), (''c'', ''B'')] ! i) = ''B''"
      by (elim exE conjE)
    then show ?thesis by (intro exI conjI)
  qed
  note b = get_key_spec [THEN conjunct2, rule_format, OF conjI [OF k v] g]
  show ?thesis by (intro conjI m a' k v g b)
qed

section \<open>Properties of the error handler\<close>

lemma set_send_pages_create:
  "CreateMessage cid page \<in> set (send_pages e ch pages) \<longleftrightarrow>
     cid = ch \<and> page \<in> set pages"
  by (induction pages) (auto split: option.splits)


lemma send_pages_no_respond: "Respond emb b \<notin> set (send_pages e ch pages)"
  by (induction pages) (auto split: option.splits)

lemma log_error_to_homeguild_events:
  "fst (log_error_to_homeguild e s (Some ctx) ev) =
     (if truthy (dict_get (config ctx) ''error_logging_channel'')
      then send_pages e (the (dict_get (config ctx) ''error_logging_channel''))
             (build_pages e (added_lines s (Some ctx) ev))
      else [])"
  by (simp add: log_error_to_homeguild_def Let_def)

lemma log_error_to_homeguild_returns:
  "snd (log_error_to_homeguild e s (Some ctx) ev) = Returned"
  by (simp add: log_error_to_homeguild_def Let_def)

lemma application_error_handler_unhandled:
  assumes "early_response e ctx error = None"
  shows "application_error_handler e ctx error =
     ([LoggingError (''Ignoring exception in command '' @ command_name ctx @ '':''),
       LoggingError (exception_msg e error)] @
      fst (log_error_to_homeguild e (exception_msg e error) (Some ctx) None) @
      [Respond (unhandled_embed ctx error) True], Returned)"
proof -
  obtain sent out where
    l: "log_error_to_homeguild e (exception_msg e error) (Some ctx) None = (sent, out)"
    by (cases "log_error_to_homeguild e (exception_msg e error) (Some ctx) None")
  with log_error_to_homeguild_returns [of e "exception_msg e error" ctx None]
  have "out = Returned" by simp
  with l assms show ?thesis by (simp add: application_error_handler_def)
qed

lemma application_error_handler_returns:
  "snd (application_error_handler e ctx error) = Returned"
proof (cases "early_response e ctx error")
  case None
  then show ?thesis by (simp add: application_error_handler_unhandled)
next
  case (Some emb)
  then show ?thesis by (simp add: application_error_handler_def)
qed

lemma application_error_handler_recognized:
  "early_response e ctx error = Some emb \<Longrightarrow>
     application_error_handler e ctx error = ([Respond emb True], Returned)"
  by (simp add: application_error_handler_def)

text \<open>
  Claim C1 fails on the code for a wrapped \<open>ForbiddenError\<close>. The handler's branch for it
  builds the Forbidden embed and does not respond with it: the error is logged, its
  traceback is sent to the operator channel when one is configured, and the answer to the
  user is the "Unhandled exception" embed.
\<close>

theorem forbidden_error_falls_through:
  "application_error_handler e ctx (CommandInvocationError (ForbiddenError m) t) =
     ([LoggingError (''Ignoring exception in command '' @ command_name ctx @ '':''),
       LoggingError (exception_msg e (CommandInvocationError (ForbiddenError m) t))] @
      (if truthy (dict_get (config ctx) ''error_logging_channel'')
       then send_pages e (the (dict_get (config ctx) ''error_logging_channel''))
              (build_pages e
                (added_lines (exception_msg e (CommandInvocationError (ForbiddenError m) t))
                   (Some ctx) None))
       else []) @
      [Respond (unhandled_embed ctx (CommandInvocationError (ForbiddenError m) t)) True],
      Returned) \<and>
   Respond (forbidden_embed ctx (CommandInvocationError (ForbiddenError m) t)) True
     \<notin> set (fst (application_error_handler e ctx (CommandInvocationError (ForbiddenError m) t)))"
proof -
  let ?err = "CommandInvocationError (ForbiddenError m) t"
  have n: "early_response e ctx ?err = None" by simp
  have d: "forbidden_embed ctx ?err \<noteq> unhandled_embed ctx ?err"
  proof
    assume "forbidden_embed ctx ?err = unhandled_embed ctx ?err"
    then have "footer (forbidden_embed ctx ?err) = footer (unhandled_embed ctx ?err)" by simp
    then show False by (simp add: forbidden_embed_def unhandled_embed_def)
  qed
  show ?thesis
    using d
    by (simp add: application_error_handler_unhandled [OF n] log_error_to_homeguild_events
        send_pages_no_respond)
qed

text \<open>
  Claim C4. For an error of no recognized category the handler returns without raising,
  and a page of the traceback is sent to a channel exactly when that channel is the
  configured error-logging channel (set, and not empty) and the page is one of the pages
  built: with no channel configured nothing is sent.
\<close>

theorem unhandled_forwarded_iff_configured:
  assumes "early_response e ctx error = None"
  shows "snd (application_error_handler e ctx error) = Returned \<and>
    (\<forall>cid page.
       CreateMessage cid page \<in> set (fst (application_error_handler e ctx error)) \<longleftrightarrow>
         truthy (dict_get (config ctx) ''error_logging_channel'') \<and>
         dict_get (config ctx) ''error_logging_channel'' = Some cid \<and>
         page \<in> set (build_pages e (added_lines (exception_msg e error) (Some ctx) None)))"
proof (intro conjI allI)
  show "snd (application_error_handler e ctx error) = Returned"
    by (rule application_error_handler_returns)
next
  fix cid page
  show "CreateMessage cid page \<in> set (fst (application_error_handler e ctx error)) \<longleftrightarrow>
         truthy (dict_get (config ctx) ''error_logging_channel'') \<and>
         dict_get (config ctx) ''error_logging_channel'' = Some cid \<and>
         page \<in> set (build_pages e (added_lines (exception_msg e error) (Some ctx) None))"
  proof (cases "dict_get (config ctx) ''error_logging_channel''")
    case None
    then show ?thesis
      by (simp add: application_error_handler_unhandled [OF assms]
          log_error_to_homeguild_events)
  next
    case (Some c)
    then show ?thesis
      by (auto simp: application_error_handler_unhandled [OF assms]
          log_error_to_homeguild_events set_send_pages_create)
  qed
qed

theorem unhandled_forwarded_iff_configured_witness:
  "early_response
     \<lparr>get_perm_str = (\<lambda>p. ''Manage Server''), str_timedelta = (\<lambda>n. ''0:00:05''),
      format_exception = (\<lambda>err. [''Traceback'', error_str err]),
      build_pages = (\<lambda>lines. [''page'']), create_message = (\<lambda>c p. None)\<rparr>
     \<lparr>guild_name = ''Home'', guild_id = 7, command_name = ''ban'', author = ''mod'',
      author_id = 9, config = [(''error_logging_channel'', ConfigInt 42)], error_color = 255\<rparr>
     (LightbulbError ''CommandNotFound'' ''no such command'') = None \<and>
   CreateMessage (ConfigInt 42) ''page'' \<in> set (fst (application_error_handler
     \<lparr>get_perm_str = (\<lambda>p. ''Manage Server''), str_timedelta = (\<lambda>n. ''0:00:05''),
      format_exception = (\<lambda>err. [''Traceback'', error_str err]),
      build_pages = (\<lambda>lines. [''page'']), create_message = (\<lambda>c p. None)\<rparr>
     \<lparr>guild_name = ''Home'', guild_id = 7, command_name = ''ban'', author = ''mod'',
      author_id = 9, config = [(''error_logging_channel'', ConfigInt 42)], error_color = 255\<rparr>
     (LightbulbError ''CommandNotFound'' ''no such command''))) \<and>
   CreateMessage (ConfigInt 42) ''page'' \<notin> set (fst (application_error_handler
     \<lparr>get_perm_str = (\<lambda>p. ''Manage Server''), str_timedelta = (\<lambda>n. ''0:00:05''),
      format_exception = (\<lambda>err. [''Traceback'', error_str err]),
      build_pages = (\<lambda>lines. [''page'']), create_message = (\<lambda>c p. None)\<rparr>
     \<lparr>guild_name = ''Home'', guild_id = 7, command_name = ''ban'', author = ''mod'',
      author_id = 9, config = [], error_color = 255\<rparr>
     (LightbulbError ''CommandNotFound'' ''no such command'')))"
proof -
  let ?e = "\<lparr>get_perm_str = (\<lambda>p. ''Manage Server''), str_timedelta = (\<lambda>n. ''0:00:05''),
      format_exception = (\<lambda>err. [''Traceback'', error_str err]),
      build_pages = (\<lambda>lines. [''page'']), create_message = (\<lambda>c p. None)\<rparr>"
  let ?c = "\<lparr>guild_name = ''Home'', guild_id = 7, command_name = ''ban'', author = ''mod'',
      author_id = 9, config = [(''error_logging_channel'', ConfigInt 42)], error_color = 255\<rparr>"
  let ?u = "\<lparr>guild_name = ''Home'', guild_id = 7, command_name = ''ban'', author = ''mod'',
      author_id = 9, config = [] :: (string, config_value) dict, error_color = 255\<rparr>"
  let ?err = "LightbulbError ''CommandNotFound'' ''no such command''"
  have n: "early_response ?e ?c ?err = None" by simp
  have n': "early_response ?e ?u ?err = None" by simp
  have g: "dict_get (config ?c) ''error_logging_channel'' = Some (ConfigInt 42)"
    by (simp add: dict_get_def)
  have g': "dict_get (config ?u) ''error_logging_channel'' = None"
    by (simp add: dict_get_def)
  have p: "''page'' \<in> set (build_pages ?e (added_lines (exception_msg ?e ?err) (Some ?c) None))"
    by simp
  from unhandled_forwarded_iff_configured [OF n] g p
  have a: "CreateMessage (ConfigInt 42) ''page'' \<in> set (fst (application_error_handler ?e ?c ?err))"
    by simp
  from unhandled_forwarded_iff_configured [OF n'] g'
  have b: "CreateMessage (ConfigInt 42) ''page'' \<notin> set (fst (application_error_handler ?e ?u ?err))"
    by simp
  from n a b show ?thesis by (intro conjI)
qed




section \<open>Properties of the settings menus\<close>

lemma prepend_pair [simp]: "prepend effects (effects', out) = (effects @ effects', out)"
  by (simp add: prepend_def)

lemma prepend_prepend [simp]: "prepend a (prepend b r) = prepend (a @ b) r"
  by (simp add: prepend_def)

lemma fst_prepend: "fst (prepend effects r) = effects @ fst r"
  by (simp add: prepend_def)

lemma snd_prepend: "snd (prepend effects r) = snd r"
  by (simp add: prepend_def)

lemmas view_defs = ButtonMenuView_def SelectMenuView_def BackButton_def QuitButton_def
  main_buttons_def report_buttons_def logging_view_def mod_buttons_def

lemmas menu_defs = menu_action_def in_menu_actions_def menu_actions_def getitem_def dict_keys_def

lemmas helper_defs = maybe_edit_def maybe_delete_def timeout_or_quit_def is_toggle_of_def
  toggle_state_def

lemmas report_defs = report_record_def db_cache_get_reports_def pinged_roles_of_def
  unadded_roles_of_def report_channel_def empty_report_row_def report_row_of_def

lemma main_to_menu:
  "settings_cmd e ctx s (Press ''Moderation'' # ins) =
     prepend [Respond_menu (main_embed e) (ButtonMenuView main_buttons False) (next_message s),
              Dispatch (VStr ''Moderation'')]
       (invoke e Settings_mod (ctx\<lparr>parent := None\<rparr>) (Some (next_message s))
          (s\<lparr>next_message := Suc (next_message s)\<rparr>) ins)"
  "settings_cmd e ctx s (Press ''Logging'' # ins) =
     prepend [Respond_menu (main_embed e) (ButtonMenuView main_buttons False) (next_message s),
              Dispatch (VStr ''Logging'')]
       (invoke e Settings_logging (ctx\<lparr>parent := None\<rparr>) (Some (next_message s))
          (s\<lparr>next_message := Suc (next_message s)\<rparr>) ins)"
  "settings_cmd e ctx s (Press ''Reports'' # ins) =
     prepend [Respond_menu (main_embed e) (ButtonMenuView main_buttons False) (next_message s),
              Dispatch (VStr ''Reports'')]
       (invoke e Settings_report (ctx\<lparr>parent := None\<rparr>) (Some (next_message s))
          (s\<lparr>next_message := Suc (next_message s)\<rparr>) ins)"
  by (simp_all add: settings_cmd_def invoke.simps(1,5) Let_def start_and_wait_def view_defs
      menu_defs prepend_def)

lemma log_channels_after_color:
  "get_log_channel_ids_view e (execute e (Update_log_config_color v g) s) g' =
     get_log_channel_ids_view e s g'"
  by (simp add: get_log_channel_ids_view_def split: option.splits)

text \<open>
  The statement that writes the colour flag is an \<open>UPDATE\<close>: for a guild with no row in
  \<open>log_config\<close> it stores nothing.
\<close>

lemma update_color_without_row:
  "log_config s g = None \<Longrightarrow> execute e (Update_log_config_color v g) s = s"
  by simp

text \<open>
  Claim C2 fails on the code in two ways. When the view of the Moderation menu times out,
  the message in hand is \<open>None\<close> (the result of \<open>maybe_edit\<close>): \<open>timeout_or_quit\<close> raises
  AttributeError, and the menu message is not deleted. When \<open>helpers.ask\<close> times out in the
  Reports menu, the menu calls \<open>menu_actions["Quit"]\<close>, which deletes the message, and has
  no \<open>return\<close> after it: the function goes on to its last statement and writes the pinged
  roles to storage.
\<close>

theorem quit_without_delete_and_write_after_quit:
  "settings_cmd e ctx s [Press ''Moderation''] =
     (case mod_rows (mod_settings_strings e) (get_settings e s (guild_id ctx)) of
        Inl err \<Rightarrow>
          ([Respond_menu (main_embed e) (ButtonMenuView main_buttons False) (next_message s),
            Dispatch (VStr ''Moderation'')], Raised err)
      | Inr rows \<Rightarrow>
          (case start_on_none e of
             Start_raises err \<Rightarrow>
               ([Respond_menu (main_embed e) (ButtonMenuView main_buttons False) (next_message s),
                 Dispatch (VStr ''Moderation''),
                 EditMessage (next_message s) (mod_embed e rows)
                   (ButtonMenuView (mod_buttons rows) True)], Raised err)
           | _ \<Rightarrow>
               ([Respond_menu (main_embed e) (ButtonMenuView main_buttons False) (next_message s),
                 Dispatch (VStr ''Moderation''),
                 EditMessage (next_message s) (mod_embed e rows)
                   (ButtonMenuView (mod_buttons rows) True),
                 Dispatch (VStr ''Timeout'')], Raised AttributeError))) \<and>
   settings_cmd e ctx (s\<lparr>reports := (\<lambda>g. None)\<rparr>) [Press ''Reports'', Press ''Set Channel''] =
     ([Respond_menu (main_embed e) (ButtonMenuView main_buttons False) (next_message s),
       Dispatch (VStr ''Reports''),
       EditMessage (next_message s) (report_embed e None [])
         (ButtonMenuView (report_buttons empty_report_row None (dict_values (roles e)) []) True),
       AskPrompt (Some (next_message s)) (report_channel_prompt e) (textable_channel_options e),
       Dispatch (VStr ''Quit''),
       DeleteMessage (next_message s),
       Execute (Upsert_reports_pinged_role_ids [] (guild_id ctx)),
       Refresh ''reports'' (guild_id ctx),
       EditMessage (next_message s) (report_embed e None [])
         (ButtonMenuView (report_buttons empty_report_row None (dict_values (roles e)) []) True),
       Dispatch (VStr ''Timeout''),
       DeleteMessage (next_message s)], Returned)"
proof
  show "settings_cmd e ctx s [Press ''Moderation''] =
     (case mod_rows (mod_settings_strings e) (get_settings e s (guild_id ctx)) of
        Inl err \<Rightarrow>
          ([Respond_menu (main_embed e) (ButtonMenuView main_buttons False) (next_message s),
            Dispatch (VStr ''Moderation'')], Raised err)
      | Inr rows \<Rightarrow>
          (case start_on_none e of
             Start_raises err \<Rightarrow>
               ([Respond_menu (main_embed e) (ButtonMenuView main_buttons False) (next_message s),
                 Dispatch (VStr ''Moderation''),
                 EditMessage (next_message s) (mod_embed e rows)
                   (ButtonMenuView (mod_buttons rows) True)], Raised err)
           | _ \<Rightarrow>
               ([Respond_menu (main_embed e) (ButtonMenuView main_buttons False) (next_message s),
                 Dispatch (VStr ''Moderation''),
                 EditMessage (next_message s) (mod_embed e rows)
                   (ButtonMenuView (mod_buttons rows) True),
                 Dispatch (VStr ''Timeout'')], Raised AttributeError)))"
  proof (cases "mod_rows (mod_settings_strings e) (get_settings e s (guild_id ctx))")
    case (Inl err)
    then show ?thesis
      by (simp add: main_to_menu invoke.simps(6) get_settings_def)
  next
    case (Inr rows)
    have g: "get_settings e (s\<lparr>next_message := n\<rparr>) (guild_id ctx) =
               get_settings e s (guild_id ctx)" for n
      by (simp add: get_settings_def)
    show ?thesis
    proof (cases "start_on_none e")
      case (Start_raises err)
      with Inr show ?thesis
        by (simp add: main_to_menu invoke.simps(6) Let_def start_and_wait_def helper_defs g)
    next
      case Start_receives_nothing
      with Inr show ?thesis
        by (simp add: main_to_menu invoke.simps(1,2,6) Let_def start_and_wait_def helper_defs
            menu_defs g)
    next
      case Start_listens
      with Inr show ?thesis
        by (simp add: main_to_menu invoke.simps(1,2,6) Let_def start_and_wait_def helper_defs
            menu_defs g)
    qed
  qed
next
  show "settings_cmd e ctx (s\<lparr>reports := (\<lambda>g. None)\<rparr>) [Press ''Reports'', Press ''Set Channel''] =
     ([Respond_menu (main_embed e) (ButtonMenuView main_buttons False) (next_message s),
       Dispatch (VStr ''Reports''),
       EditMessage (next_message s) (report_embed e None [])
         (ButtonMenuView (report_buttons empty_report_row None (dict_values (roles e)) []) True),
       AskPrompt (Some (next_message s)) (report_channel_prompt e) (textable_channel_options e),
       Dispatch (VStr ''Quit''),
       DeleteMessage (next_message s),
       Execute (Upsert_reports_pinged_role_ids [] (guild_id ctx)),
       Refresh ''reports'' (guild_id ctx),
       EditMessage (next_message s) (report_embed e None [])
         (ButtonMenuView (report_buttons empty_report_row None (dict_values (roles e)) []) True),
       Dispatch (VStr ''Timeout''),
       DeleteMessage (next_message s)], Returned)"
    by (simp add: main_to_menu invoke.simps Let_def start_and_wait_def view_defs menu_defs
        helper_defs report_defs)
qed

text \<open>
  Claim C3 fails on the code for the toggle it names. Pressing "Color logs" in the Logging
  menu executes the one statement with the new value and refreshes the cache entry, and
  then calls \<open>settings_logging\<close> with the message that \<open>maybe_edit\<close> returned, \<open>None\<close>: the
  redraw raises AttributeError and the menu is not drawn again. (With a \<open>view.start\<close> that
  does not work on \<open>None\<close> the session ends before the button can be pressed.)
\<close>

theorem color_logs_toggle_not_redrawn:
  "settings_cmd e ctx s [Press ''Logging'', Press ''Color logs''] =
     (case log_rows e (get_log_channel_ids_view e s (guild_id ctx)) of
        Inl err \<Rightarrow>
          ([Respond_menu (main_embed e) (ButtonMenuView main_buttons False) (next_message s),
            Dispatch (VStr ''Logging'')], Raised err)
      | Inr rows \<Rightarrow>
          (case start_on_none e of
             Start_raises err \<Rightarrow>
               ([Respond_menu (main_embed e) (ButtonMenuView main_buttons False) (next_message s),
                 Dispatch (VStr ''Logging''),
                 EditMessage (next_message s) (logging_embed e rows)
                   (logging_view e s (guild_id ctx) rows)], Raised err)
           | Start_receives_nothing \<Rightarrow>
               ([Respond_menu (main_embed e) (ButtonMenuView main_buttons False) (next_message s),
                 Dispatch (VStr ''Logging''),
                 EditMessage (next_message s) (logging_embed e rows)
                   (logging_view e s (guild_id ctx) rows),
                 Dispatch (VStr ''Timeout'')], Raised AttributeError)
           | Start_listens \<Rightarrow>
               ([Respond_menu (main_embed e) (ButtonMenuView main_buttons False) (next_message s),
                 Dispatch (VStr ''Logging''),
                 EditMessage (next_message s) (logging_embed e rows)
                   (logging_view e s (guild_id ctx) rows),
                 Execute (Update_log_config_color (\<not> is_color_enabled e s (guild_id ctx))
                            (guild_id ctx)),
                 Refresh ''log_config'' (guild_id ctx)], Raised AttributeError)))"
proof (cases "log_rows e (get_log_channel_ids_view e s (guild_id ctx))")
  case (Inl err)
  then show ?thesis
    by (simp add: main_to_menu invoke.simps(7) get_log_channel_ids_view_def)
next
  case (Inr rows)
  have v: "interaction (logging_view e s' g rows) (Press ''Color logs'') =
             Some (VTuple ''Color logs'' (\<not> is_color_enabled e s' g))" for s' g
    by (simp add: view_defs)
  have g: "get_log_channel_ids_view e (s\<lparr>next_message := n\<rparr>) (guild_id ctx) =
             get_log_channel_ids_view e s (guild_id ctx)" for n
    by (simp add: get_log_channel_ids_view_def)
  have c: "is_color_enabled e (s\<lparr>next_message := n\<rparr>) (guild_id ctx) =
             is_color_enabled e s (guild_id ctx)" for n
    by (simp add: is_color_enabled_def)
  have w: "logging_view e (s\<lparr>next_message := n\<rparr>) (guild_id ctx) rows =
             logging_view e s (guild_id ctx) rows" for n
    by (simp add: logging_view_def c)
  show ?thesis
  proof (cases "start_on_none e")
    case (Start_raises err)
    with Inr show ?thesis
      by (simp add: main_to_menu invoke.simps(7) Let_def start_and_wait_def helper_defs g w)
  next
    case Start_receives_nothing
    with Inr show ?thesis
      by (simp add: main_to_menu invoke.simps(1,2,7) Let_def start_and_wait_def helper_defs
          menu_defs g w)
  next
    case Start_listens
    with Inr show ?thesis
      by (simp add: main_to_menu invoke.simps(7) Let_def start_and_wait_def helper_defs
          menu_defs g w v c log_channels_after_color del: execute.simps)
  qed
qed

lemma ask_unresolved_reply:
  "convert text = None \<Longrightarrow>
     ask resolve convert ignore options (Reply text # ins) = (Ask_TypeError, ins)"
  by simp

text \<open>
  Claim C5. In the Reports menu, after "Set Channel", when \<open>helpers.ask\<close> ends with the
  TypeError of an answer that resolves to no channel, the menu shows the "Channel not found"
  embed with the Back button as its only control, the parent recorded is \<open>"Reports"\<close>, and the
  session goes on from that view on the state as it was: nothing is executed against storage
  for the answer.
\<close>

theorem set_channel_not_found:
  assumes "ask (resolve_channel e) (channel_of_text e) [] (textable_channel_options e) ins
             = (Ask_TypeError, ins')"
  shows "invoke e Settings_report ctx (Some m) s (Press ''Set Channel'' # ins) =
     prepend
       [EditMessage m
          (report_embed e (report_channel e (report_record s (guild_id ctx)))
             (pinged_roles_of e (report_record s (guild_id ctx))))
          (ButtonMenuView
             (report_buttons (report_record s (guild_id ctx))
                (report_channel e (report_record s (guild_id ctx)))
                (unadded_roles_of e (pinged_roles_of e (report_record s (guild_id ctx))))
                (pinged_roles_of e (report_record s (guild_id ctx)))) True),
        AskPrompt (Some m) (report_channel_prompt e) (textable_channel_options e),
        EditMessage m (channel_not_found_embed e) [BackButton]]
       (invoke e (Menu_action (fst (wait [BackButton] ins')))
          (ctx\<lparr>parent := Some ''Reports''\<rparr>) (Some m) s (snd (wait [BackButton] ins')))"
proof -
  have w: "interaction (ButtonMenuView (report_buttons r c u p) True) (Press ''Set Channel'')
             = Some (VStr ''Set Channel'')" for r c u p
    by (simp add: view_defs)
  have n: "\<not> in_menu_actions (VStr ''Set Channel'')"
    by (simp add: menu_defs)
  have b: "ButtonMenuView [] True = [BackButton]"
    by (simp add: ButtonMenuView_def)
  obtain v ins'' where p: "wait [BackButton] ins' = (v, ins'')"
    by (cases "wait [BackButton] ins'")
  show ?thesis
    using assms
    by (simp add: invoke.simps(8,9) Let_def start_and_wait_def helper_defs w n b p)
qed

theorem set_channel_not_found_witness:
  "ask (resolve_channel example_env) (channel_of_text example_env) []
     (textable_channel_options example_env) [Reply ''nowhere'', Press ''Back'']
     = (Ask_TypeError, [Press ''Back'']) \<and>
   invoke example_env Settings_report example_ctx (Some 100) example_state
     [Press ''Set Channel'', Reply ''nowhere'', Press ''Back''] =
     prepend
       [EditMessage 100
          (report_embed example_env None [])
          (ButtonMenuView (report_buttons empty_report_row None [Role 20 ''mods''] []) True),
        AskPrompt (Some 100) (report_channel_prompt example_env)
          [(''#general'', VInt 10)],
        EditMessage 100 (channel_not_found_embed example_env) [BackButton]]
       (invoke example_env (Menu_action (VStr ''Back''))
          (example_ctx\<lparr>parent := Some ''Reports''\<rparr>) (Some 100) example_state [])"
proof -
  have a: "ask (resolve_channel example_env) (channel_of_text example_env) []
     (textable_channel_options example_env) [Reply ''nowhere'', Press ''Back'']
     = (Ask_TypeError, [Press ''Back''])"
    by (simp add: example_env_def)
  have w: "wait [BackButton] [Press ''Back''] = (VStr ''Back'', [])"
    by (simp add: BackButton_def)
  have r: "report_record example_state (guild_id example_ctx) = empty_report_row"
    by (simp add: report_defs example_state_def)
  have p: "pinged_roles_of example_env empty_report_row = []"
    by (simp add: report_defs)
  have c: "report_channel example_env empty_report_row = None"
    by (simp add: report_defs)
  have u: "unadded_roles_of example_env [] = [Role 20 ''mods'']"
    by (simp add: report_defs example_env_def dict_values_def)
  have t: "textable_channel_options example_env = [(''#general'', VInt 10)]"
    by (simp add: textable_channel_options_def example_env_def dict_values_def)
  from set_channel_not_found [OF a, of example_ctx 100 example_state]
  have "invoke example_env Settings_report example_ctx (Some 100) example_state
     [Press ''Set Channel'', Reply ''nowhere'', Press ''Back''] =
     prepend
       [EditMessage 100
          (report_embed example_env None [])
          (ButtonMenuView (report_buttons empty_report_row None [Role 20 ''mods''] []) True),
        AskPrompt (Some 100) (report_channel_prompt example_env)
          [(''#general'', VInt 10)],
        EditMessage 100 (channel_not_found_embed example_env) [BackButton]]
       (invoke example_env (Menu_action (VStr ''Back''))
          (example_ctx\<lparr>parent := Some ''Reports''\<rparr>) (Some 100) example_state [])"
    by (simp only: w r p c u t fst_conv snd_conv)
  with a show ?thesis by (rule conjI)
qed




lemma in_menu_actions_Back: "in_menu_actions (VStr ''Back'')"
  by (simp add: menu_defs)









lemma wait_value:
  "wait view ins = (v, ins') \<Longrightarrow> v = VStr ''Timeout'' \<or> (\<exists>a. interaction view a = Some v)"
proof (induction ins)
  case Nil
  then show ?case by simp
next
  case (Cons a ins)
  show ?case
  proof (cases "interaction view a")
    case None
    with Cons show ?thesis by simp
  next
    case (Some x)
    with Cons.prems show ?thesis by auto
  qed
qed

lemma start_and_wait_value:
  "start_and_wait e view message ins = Inr (v, ins') \<Longrightarrow>
     v = VStr ''Timeout'' \<or> (\<exists>a. interaction view a = Some v)"
  by (auto simp: start_and_wait_def dest: wait_value split: option.splits start_none.splits)

lemma main_view_registered:
  "interaction (ButtonMenuView main_buttons False) a = Some v \<Longrightarrow> in_menu_actions v"
  by (cases a) (auto simp: view_defs menu_defs split: if_splits)

lemma error_view_registered:
  "interaction (ButtonMenuView [] True) a = Some v \<Longrightarrow> in_menu_actions v"
  by (cases a) (auto simp: view_defs menu_defs split: if_splits)

lemma main_wait_registered:
  "start_and_wait e (ButtonMenuView main_buttons False) message ins = Inr (v, ins') \<Longrightarrow>
     in_menu_actions v"
  using start_and_wait_value main_view_registered in_menu_actions_Timeout by blast

lemma error_wait_registered:
  "start_and_wait e (ButtonMenuView [] True) message ins = Inr (v, ins') \<Longrightarrow>
     in_menu_actions v"
  using start_and_wait_value error_view_registered in_menu_actions_Timeout by blast

lemma registered_prepend [simp]:
  "list_all registered_effect (fst (prepend effects r)) \<longleftrightarrow>
     list_all registered_effect effects \<and> list_all registered_effect (fst r)"
  by (simp add: prepend_def)

lemma registered_timeout_or_quit [simp]:
  "list_all registered_effect (fst (timeout_or_quit message))"
  by (simp add: helper_defs split: option.splits)

lemma registered_target:
  "menu_action key = Inr target \<Longrightarrow> registered_call target"
  by (drule menu_action_cases) auto

lemma registered_menu_action:
  "in_menu_actions key \<Longrightarrow> \<exists>target. menu_action key = Inr target"
  by (auto simp: menu_defs split: pyvalue.splits)

lemma unregistered_menu_action:
  "\<not> in_menu_actions key \<Longrightarrow> menu_action key = Inl KeyError"
  by (auto simp: menu_defs split: pyvalue.splits)

lemma in_menu_actions_Main: "in_menu_actions (VStr ''Main'')"
  by (simp add: menu_defs)

lemma in_menu_actions_Quit: "in_menu_actions (VStr ''Quit'')"
  by (simp add: menu_defs)

lemma in_menu_actions_Reports: "in_menu_actions (VStr ''Reports'')"
  by (simp add: menu_defs)

lemma in_menu_actions_Logging: "in_menu_actions (VStr ''Logging'')"
  by (simp add: menu_defs)

lemmas registered_names = in_menu_actions_Main in_menu_actions_Quit in_menu_actions_Reports
  in_menu_actions_Logging in_menu_actions_Back in_menu_actions_Timeout

lemma main_wait_registered':
  "start_and_wait e (ButtonMenuView main_buttons False) message ins = Inr b \<Longrightarrow>
     (v, ins') = b \<Longrightarrow> in_menu_actions v"
  using main_wait_registered [of e message ins v ins'] by simp

lemma error_wait_registered':
  "start_and_wait e (ButtonMenuView [] True) message ins = Inr b \<Longrightarrow>
     (v, ins') = b \<Longrightarrow> in_menu_actions v"
  using error_wait_registered [of e message ins v ins'] by simp

lemma registered_maybe_edit:
  "maybe_edit message emb view = Inr edited \<Longrightarrow> list_all registered_effect edited"
  by (auto simp: maybe_edit_def split: option.splits)

lemma rr_nil: "registered_result ([], out)"
  by (simp add: registered_result_def)

lemma rr_prepend:
  "list_all registered_effect effects \<Longrightarrow> registered_result r \<Longrightarrow>
     registered_result (prepend effects r)"
  by (simp add: registered_result_def)

lemma rr_timeout_or_quit: "registered_result (timeout_or_quit message)"
  by (simp add: registered_result_def)

lemma rr_if:
  "(c \<Longrightarrow> registered_result a) \<Longrightarrow> (\<not> c \<Longrightarrow> registered_result b) \<Longrightarrow>
     registered_result (if c then a else b)"
  by simp

lemma rr_let: "(\<And>y. y = x \<Longrightarrow> registered_result (f y)) \<Longrightarrow> registered_result (Let x f)"
  by simp

lemma rr_sum:
  "(\<And>a. x = Inl a \<Longrightarrow> registered_result (f a)) \<Longrightarrow>
   (\<And>b. x = Inr b \<Longrightarrow> registered_result (g b)) \<Longrightarrow>
     registered_result (case x of Inl a \<Rightarrow> f a | Inr b \<Rightarrow> g b)"
  by (cases x) simp_all

lemma rr_prod:
  "(\<And>a b. (a, b) = x \<Longrightarrow> registered_result (f a b)) \<Longrightarrow>
     registered_result (case x of (a, b) \<Rightarrow> f a b)"
  by (cases x) simp

lemma rr_option:
  "(x = None \<Longrightarrow> registered_result a) \<Longrightarrow>
   (\<And>y. x = Some y \<Longrightarrow> registered_result (f y)) \<Longrightarrow>
     registered_result (case x of None \<Rightarrow> a | Some y \<Rightarrow> f y)"
  by (cases x) simp_all

lemma rr_asked:
  "(\<And>y. x = Answer y \<Longrightarrow> registered_result (f y)) \<Longrightarrow>
   (\<And>y. x = Ignored y \<Longrightarrow> registered_result (g y)) \<Longrightarrow>
   (x = Ask_TypeError \<Longrightarrow> registered_result a) \<Longrightarrow>
   (x = Ask_TimeoutError \<Longrightarrow> registered_result b) \<Longrightarrow>
     registered_result (case x of Answer y \<Rightarrow> f y | Ignored y \<Rightarrow> g y
                        | Ask_TypeError \<Rightarrow> a | Ask_TimeoutError \<Rightarrow> b)"
  by (cases x) simp_all

lemma rr_pyvalue:
  "(x = VNone \<Longrightarrow> registered_result a) \<Longrightarrow>
   (\<And>y. x = VStr y \<Longrightarrow> registered_result (f y)) \<Longrightarrow>
   (\<And>y. x = VInt y \<Longrightarrow> registered_result (g y)) \<Longrightarrow>
   (\<And>y z. x = VTuple y z \<Longrightarrow> registered_result (h y z)) \<Longrightarrow>
     registered_result (case x of VNone \<Rightarrow> a | VStr y \<Rightarrow> f y | VInt y \<Rightarrow> g y
                        | VTuple y z \<Rightarrow> h y z)"
  by (cases x) simp_all

lemma rr_outcome:
  "(x = Returned \<Longrightarrow> registered_result a) \<Longrightarrow>
   (\<And>y. x = Raised y \<Longrightarrow> registered_result (f y)) \<Longrightarrow>
     registered_result (case x of Returned \<Rightarrow> a | Raised y \<Rightarrow> f y)"
  by (cases x) simp_all

lemmas rr_rules = rr_nil rr_prepend rr_timeout_or_quit rr_if rr_let rr_sum rr_prod rr_option
  rr_asked rr_pyvalue rr_outcome

lemma registered_parent_update [simp]:
  "registered_parent (ctx\<lparr>parent := None\<rparr>)"
  "registered_parent (ctx\<lparr>parent := Some ''Main''\<rparr>)"
  "registered_parent (ctx\<lparr>parent := Some return_to\<rparr>) = (return_to = [] \<or> in_menu_actions (VStr return_to))"
  by (simp_all add: registered_parent_def in_menu_actions_Main)

lemma invoke_registered:
  "registered_call c \<Longrightarrow> registered_parent ctx \<Longrightarrow>
     registered_result (invoke e c ctx message s ins)"
proof (induction e c ctx message s ins rule: invoke.induct)
  case (1 e key ctx message s ins)
  from "1.prems" have k: "in_menu_actions key" by simp
  show ?case
    apply (subst invoke.simps)
    apply (intro rr_rules)
      apply (simp add: k)
    apply (rule "1.IH"; (assumption | simp add: registered_target "1.prems"))
    done
next
  case (2 e ctx message s ins)
  show ?case by (simp add: invoke.simps(2) rr_timeout_or_quit)
next
  case (3 e ctx message s ins)
  show ?case by (simp add: invoke.simps(3) rr_nil)
next
  case (4 e ctx message s ins)
  note p = "4.prems"(2)
  show ?case
    apply (subst invoke.simps)
    apply (intro rr_rules)
      apply (insert p)
      apply (simp add: registered_result_def registered_parent_def)
    apply (rule "4.IH"; (assumption | simp add: registered_parent_def))
    done
next
  case (5 e ctx message s ins)
  show ?case
    apply (subst invoke.simps)
    apply (intro rr_rules)
       apply (simp_all (no_asm))
     apply (hypsubst, rule "5.IH"; (assumption | rule refl | simp add: main_wait_registered))
    apply (hypsubst, rule "5.IH"; (assumption | rule refl | simp add: main_wait_registered))
    done
next
  case (6 e ctx message s ins)
  show ?case
    apply (subst invoke.simps)
    apply (intro rr_rules)
    apply (((simp (no_asm) add: registered_names; fail)
          | erule registered_maybe_edit
          | (hypsubst, rule "6.IH"; (assumption | rule refl
              | simp add: main_wait_registered error_wait_registered registered_names; fail)))+)
    done
next
  case (7 e ctx message s ins)
  show ?case
    apply (subst invoke.simps)
    apply (intro rr_rules)
    apply (((simp (no_asm) add: registered_names; fail)
          | erule registered_maybe_edit
          | (hypsubst, rule "7.IH"; (assumption | rule refl
              | simp add: main_wait_registered error_wait_registered registered_names; fail)))+)
    done
next
  case (8 e emb return_to ctx message s ins)
  from "8.prems"(1) have k: "in_menu_actions (VStr return_to)" by simp
  show ?case
    apply (subst invoke.simps)
    apply (intro rr_rules)
    apply (((simp (no_asm) add: registered_names; fail)
          | erule registered_maybe_edit
          | (hypsubst, rule "8.IH"; (assumption | rule refl
              | simp add: k main_wait_registered error_wait_registered registered_names; fail)))+)
    done
next
  case (9 e ctx message s ins)
  show ?case
    apply (subst invoke.simps)
    apply (intro rr_rules)
    apply (((simp (no_asm) add: registered_names; fail)
          | erule registered_maybe_edit
          | (hypsubst, rule "9.IH"; (assumption | rule refl
              | simp add: main_wait_registered error_wait_registered registered_names; fail)))+)
    done
next
  case (10 e pinged_roles ctx message s ins)
  note p = "10.prems"(2)
  show ?case
    apply (subst invoke.simps)
    apply (intro rr_rules)
    apply (((simp (no_asm) add: registered_names; fail)
          | erule registered_maybe_edit
          | (rule "10.IH"; (assumption | rule refl
              | rule p | simp add: main_wait_registered error_wait_registered registered_names; fail)))+)
    done
qed


lemma registered_effect_iff:
  "list_all registered_effect effects \<longleftrightarrow>
     (\<forall>key. Dispatch key \<in> set effects \<longrightarrow> in_menu_actions key)"
proof
  assume a: "list_all registered_effect effects"
  show "\<forall>key. Dispatch key \<in> set effects \<longrightarrow> in_menu_actions key"
  proof (intro allI impI)
    fix key
    assume b: "Dispatch key \<in> set effects"
    from a have "\<forall>x\<in>set effects. registered_effect x" by (simp only: list_all_iff)
    from this b have "registered_effect (Dispatch key)" by (rule bspec)
    then show "in_menu_actions key" by simp
  qed
next
  assume a: "\<forall>key. Dispatch key \<in> set effects \<longrightarrow> in_menu_actions key"
  show "list_all registered_effect effects"
    unfolding list_all_iff
  proof
    fix x
    assume "x \<in> set effects"
    with a show "registered_effect x" by (cases x) simp_all
  qed
qed

lemma invoke_dispatches_registered:
  assumes "registered_call c" and "registered_parent ctx"
    and "Dispatch key \<in> set (fst (invoke e c ctx message s ins))"
  shows "in_menu_actions key"
  using invoke_registered [OF assms(1,2), of e message s ins] assms(3)
  by (simp add: registered_result_def registered_effect_iff)

lemma unregistered_key_KeyError:
  "\<not> in_menu_actions key \<Longrightarrow>
     invoke e (Menu_action key) ctx message s ins = ([Dispatch key], Raised KeyError)"
  by (simp add: invoke.simps(1) unregistered_menu_action prepend_def)

text \<open>
  Claim C7, as the code has it. Every key that a menu handler looks up in \<open>menu_actions\<close> is
  registered: this holds for each handler entered with a parent that is \<open>None\<close>, empty or a
  registered name, whatever the user presses, chooses or types and also when the view times
  out, and so for a whole session of the settings command. A look-up of a value that is not a
  key is not silent: \<open>menu_actions[key]\<close> raises KeyError and nothing else is done.
\<close>

theorem dispatched_keys_are_registered:
  "(registered_call c \<and> registered_parent ctx \<and>
      Dispatch key \<in> set (fst (invoke e c ctx message s ins)) \<longrightarrow> in_menu_actions key) \<and>
   (Dispatch key \<in> set (fst (settings_cmd e ctx s ins)) \<longrightarrow> in_menu_actions key) \<and>
   (\<not> in_menu_actions v \<longrightarrow>
      invoke e (Menu_action v) ctx message s ins = ([Dispatch v], Raised KeyError))"
proof (intro conjI impI)
  assume "registered_call c \<and> registered_parent ctx \<and>
    Dispatch key \<in> set (fst (invoke e c ctx message s ins))"
  then show "in_menu_actions key"
    using invoke_dispatches_registered by blast
next
  assume a: "Dispatch key \<in> set (fst (settings_cmd e ctx s ins))"
  have "registered_call Settings_main" by simp
  moreover have "registered_parent (ctx\<lparr>parent := None\<rparr>)" by simp
  ultimately show "in_menu_actions key"
    using a unfolding settings_cmd_def by (rule invoke_dispatches_registered)
next
  assume "\<not> in_menu_actions v"
  then show "invoke e (Menu_action v) ctx message s ins = ([Dispatch v], Raised KeyError)"
    by (rule unregistered_key_KeyError)
qed

lemma example_main_timeout:
  "invoke example_env Settings_main example_ctx None example_state [] =
     ([Respond_menu (main_embed example_env) (ButtonMenuView main_buttons False) 100,
       Dispatch (VStr ''Timeout''), DeleteMessage 100], Returned)"
  by (simp add: invoke.simps start_and_wait_def example_env_def example_state_def
      menu_defs helper_defs prepend_def)

theorem dispatched_keys_are_registered_witness:
  "registered_call Settings_main \<and> registered_parent example_ctx \<and>
   Dispatch (VStr ''Timeout'') \<in>
     set (fst (invoke example_env Settings_main example_ctx None example_state [])) \<and>
   Dispatch (VStr ''Timeout'') \<in>
     set (fst (settings_cmd example_env example_ctx example_state [])) \<and>
   in_menu_actions (VStr ''Timeout'') \<and>
   \<not> in_menu_actions (VStr ''Set Channel'') \<and>
   invoke example_env (Menu_action (VStr ''Set Channel'')) example_ctx None example_state [] =
     ([Dispatch (VStr ''Set Channel'')], Raised KeyError)"
proof -
  have p: "registered_parent example_ctx"
    by (simp add: registered_parent_def example_ctx_def)
  have c: "example_ctx\<lparr>parent := None\<rparr> = example_ctx"
    by (simp add: example_ctx_def)
  have d: "Dispatch (VStr ''Timeout'') \<in>
     set (fst (invoke example_env Settings_main example_ctx None example_state []))"
    by (simp add: example_main_timeout)
  have d': "Dispatch (VStr ''Timeout'') \<in>
     set (fst (settings_cmd example_env example_ctx example_state []))"
    using d by (simp add: settings_cmd_def c)
  have n: "\<not> in_menu_actions (VStr ''Set Channel'')"
    by (simp add: menu_defs)
  note t = dispatched_keys_are_registered
    [where c = Settings_main and ctx = example_ctx and key = "VStr ''Timeout''"
       and e = example_env and message = None and s = example_state and ins = "[]"
       and v = "VStr ''Set Channel''"]
  from t p d have "in_menu_actions (VStr ''Timeout'')" by simp
  moreover from t n have
    "invoke example_env (Menu_action (VStr ''Set Channel'')) example_ctx None example_state [] =
       ([Dispatch (VStr ''Set Channel'')], Raised KeyError)" by simp
  ultimately show ?thesis using p d d' n by simp
qed

text \<open>
  Against Claim C7 as worded ("an unregistered value makes dispatch fail silently rather than
  raise"): \<open>''Set Channel''\<close>, a button of the Reports menu, is not a key of \<open>menu_actions\<close>, and
  looking it up raises KeyError.
\<close>

theorem unregistered_key_raises_KeyError:
  "invoke example_env (Menu_action (VStr ''Set Channel'')) example_ctx (Some 100) example_state []
     = ([Dispatch (VStr ''Set Channel'')], Raised KeyError)"
  by (simp add: invoke.simps(1) menu_defs prepend_def)

end
